theory Spec2Isabelle
  imports Main "HOL-Library.Sublist"
begin

section \<open>Strings and identifiers as main.py uses them\<close>

text \<open>
  Message text, file names and URLs are Python \<open>str\<close> values, modelled as \<open>string\<close>
  with one \<open>char\<close> for each code point from 0 to 255; user, guild, channel and message
  ids are Python integers, modelled as \<open>int\<close>. \<open>x in s\<close> on strings is \<open>sublist\<close>,
  \<open>s.startswith(p)\<close> is \<open>prefix\<close> and \<open>s.endswith(e)\<close> is \<open>suffix\<close>.
\<close>

definition contains :: "string \<Rightarrow> string \<Rightarrow> bool" where
  "contains s sub = sublist sub s"

definition startswith :: "string \<Rightarrow> string \<Rightarrow> bool" where
  "startswith s p = prefix p s"

definition endswith :: "string \<Rightarrow> string \<Rightarrow> bool" where
  "endswith s e = suffix e s"

text \<open>
  The code points below 256 that \<open>str.lower\<close> changes, and what it makes of them: the
  letters A to Z, and 0xC0 to 0xDE without the multiplication sign 0xD7.
\<close>

definition upper_chars :: string where
  "upper_chars =
     ''ABCDEFGHIJKLMNOPQRSTUVWXYZ'' @
     [CHR 0xC0, CHR 0xC1, CHR 0xC2, CHR 0xC3, CHR 0xC4, CHR 0xC5, CHR 0xC6,
      CHR 0xC7, CHR 0xC8, CHR 0xC9, CHR 0xCA, CHR 0xCB, CHR 0xCC, CHR 0xCD,
      CHR 0xCE, CHR 0xCF, CHR 0xD0, CHR 0xD1, CHR 0xD2, CHR 0xD3, CHR 0xD4,
      CHR 0xD5, CHR 0xD6, CHR 0xD8, CHR 0xD9, CHR 0xDA, CHR 0xDB, CHR 0xDC,
      CHR 0xDD, CHR 0xDE]"

definition lower_chars :: string where
  "lower_chars =
     ''abcdefghijklmnopqrstuvwxyz'' @
     [CHR 0xE0, CHR 0xE1, CHR 0xE2, CHR 0xE3, CHR 0xE4, CHR 0xE5, CHR 0xE6,
      CHR 0xE7, CHR 0xE8, CHR 0xE9, CHR 0xEA, CHR 0xEB, CHR 0xEC, CHR 0xED,
      CHR 0xEE, CHR 0xEF, CHR 0xF0, CHR 0xF1, CHR 0xF2, CHR 0xF3, CHR 0xF4,
      CHR 0xF5, CHR 0xF6, CHR 0xF8, CHR 0xF9, CHR 0xFA, CHR 0xFB, CHR 0xFC,
      CHR 0xFD, CHR 0xFE]"

definition lower_char :: "char \<Rightarrow> char" where
  "lower_char c = (case map_of (zip upper_chars lower_chars) c of None \<Rightarrow> c | Some l \<Rightarrow> l)"

definition lower :: "string \<Rightarrow> string" where
  "lower s = map lower_char s"

text \<open>
  The code points below 256 that \<open>str.strip\<close> removes (those with \<open>str.isspace\<close>): tab
  to carriage return, the separators 0x1C to 0x1F, the space, 0x85 and 0xA0.
\<close>

definition is_space :: "char \<Rightarrow> bool" where
  "is_space c =
     ((9 \<le> (of_char c :: nat) \<and> (of_char c :: nat) \<le> 13)
      \<or> (28 \<le> (of_char c :: nat) \<and> (of_char c :: nat) \<le> 32)
      \<or> (of_char c :: nat) = 133 \<or> (of_char c :: nat) = 160)"

definition strip :: "string \<Rightarrow> string" where
  "strip s = rev (dropWhile is_space (rev (dropWhile is_space s)))"

definition digit_char :: "nat \<Rightarrow> char" where
  "digit_char d = ''0123456789'' ! d"

fun str_nat :: "nat \<Rightarrow> string" where
  "str_nat n = (if n < 10 then [digit_char n] else str_nat (n div 10) @ [digit_char (n mod 10)])"

declare str_nat.simps [simp del]

text \<open>Python's \<open>str\<close> on an integer: decimal digits, a minus sign when negative.\<close>

definition str_int :: "int \<Rightarrow> string" where
  "str_int i = (if i < 0 then CHR ''-'' # str_nat (nat (- i)) else str_nat (nat i))"

section \<open>Global state and settings\<close>

text \<open>
  A value read from the settings document where the code applies \<open>int(...)\<close> to it is
  kept as what \<open>int\<close> makes of it: \<open>Some i\<close>, or \<open>None\<close> where \<open>int\<close> raises
  \<open>ValueError\<close>.
\<close>

type_synonym json_int = "int option"

text \<open>
  The \<open>settings\<close> dictionary. Its six keys are present from module load on and
  \<open>dict.update\<close> never removes one, so the dictionary is a record.
\<close>

record settings_dict =
  s_logger :: bool
  s_paused :: "json_int list"
  s_blocked :: "json_int list"
  s_imgurl_enabled :: bool
  s_pinging_enabled :: "(json_int \<times> bool) list"
  s_whitelist :: "(string \<times> json_int list) list"

text \<open>What \<open>json.load\<close> returns for settings.json: each top-level key may be absent.\<close>

record loaded_doc =
  l_logger :: "bool option"
  l_paused :: "json_int list option"
  l_blocked :: "json_int list option"
  l_imgurl_enabled :: "bool option"
  l_pinging_enabled :: "(json_int \<times> bool) list option"
  l_whitelist :: "(string \<times> json_int list) list option"

datatype settings_file = NoFile | NotJSON | Doc loaded_doc

datatype metadata =
    MergeMeta string "string list"
  | BatchEditMeta string "string list" nat nat
  | Img2ImgMeta string int string
  | GenerationMeta string int "string option"

text \<open>
  Modelled from the spec: the memory object of the chat cog (utils/chat.py is not among
  the sources). The spec describes it as a map from channel id to an "always respond"
  flag, which an entry gets on first activation, and a store of short-term-memory
  entries by key.
\<close>

record memory =
  active :: "int \<rightharpoonup> bool"
  stm :: "string \<rightharpoonup> string list"

text \<open>
  Modelled from the spec: \<open>isChannelActive(channelId) -> bool\<close> of the memory capability
  (utils/chat.py); a channel without an entry is not active.
\<close>

definition is_channel_active :: "memory \<Rightarrow> int \<Rightarrow> bool" where
  "is_channel_active m ch = (case active m ch of Some b \<Rightarrow> b | None \<Rightarrow> False)"

text \<open>
  Modelled from the spec: \<open>activateChannel(channelId)\<close> of the memory capability
  (utils/chat.py) sets the flag of the channel to true and is idempotent.
\<close>

definition activate_channel :: "memory \<Rightarrow> int \<Rightarrow> memory" where
  "activate_channel m ch = m\<lparr>active := (active m)(ch \<mapsto> True)\<rparr>"

text \<open>
  Modelled from the spec: \<open>deactivateChannel(channelId)\<close> of the memory capability
  (utils/chat.py) sets the flag of the channel to false.
\<close>

definition deactivate_channel :: "memory \<Rightarrow> int \<Rightarrow> memory" where
  "deactivate_channel m ch = m\<lparr>active := (active m)(ch \<mapsto> False)\<rparr>"

text \<open>
  Modelled from the spec: \<open>resetMemory(key)\<close> of the memory capability (utils/chat.py)
  clears the conversational history of the entry.
\<close>

definition reset :: "memory \<Rightarrow> string \<Rightarrow> memory" where
  "reset m k = m\<lparr>stm := (stm m)(k \<mapsto> [])\<rparr>"

text \<open>
  The module-level globals of main.py, the memory of the chat cog (\<open>None\<close> when
  \<open>bot.get_cog('ChatCog')\<close> is missing or has no \<open>memory\<close>), and the settings file on disk.
\<close>

record bot_state =
  settings :: settings_dict
  pinging_enabled :: "int \<rightharpoonup> bool"
  blocked_users :: "int set"
  paused_servers :: "int set"
  whitelisted_channels :: "string \<rightharpoonup> int list"
  custom_prefixes :: "string \<rightharpoonup> string"
  image_metadata :: "string \<rightharpoonup> metadata"
  chat_memory :: "memory option"
  on_disk :: settings_file

text \<open>The values main.py reads from the process environment at start.\<close>

record config =
  DEFAULT_PREFIX :: string
  OWNER_ID :: int
  BOT_NAME :: string

datatype load_error = JSONDecodeError | ValueError

definition default_settings :: settings_dict where
  "default_settings =
     \<lparr>s_logger = False, s_paused = [], s_blocked = [], s_imgurl_enabled = False,
      s_pinging_enabled = [], s_whitelist = []\<rparr>"

text \<open>\<open>settings.update(loaded)\<close>: every key of the document replaces the one in memory.\<close>

definition update_settings :: "settings_dict \<Rightarrow> loaded_doc \<Rightarrow> settings_dict" where
  "update_settings s l =
     \<lparr>s_logger = (case l_logger l of Some v \<Rightarrow> v | None \<Rightarrow> s_logger s),
      s_paused = (case l_paused l of Some v \<Rightarrow> v | None \<Rightarrow> s_paused s),
      s_blocked = (case l_blocked l of Some v \<Rightarrow> v | None \<Rightarrow> s_blocked s),
      s_imgurl_enabled = (case l_imgurl_enabled l of Some v \<Rightarrow> v | None \<Rightarrow> s_imgurl_enabled s),
      s_pinging_enabled = (case l_pinging_enabled l of Some v \<Rightarrow> v | None \<Rightarrow> s_pinging_enabled s),
      s_whitelist = (case l_whitelist l of Some v \<Rightarrow> v | None \<Rightarrow> s_whitelist s)\<rparr>"

text \<open>\<open>[int(x) for x in xs]\<close>: the list of integers, or \<open>None\<close> when one \<open>int(x)\<close> raises.\<close>

fun ints_of :: "json_int list \<Rightarrow> int list option" where
  "ints_of [] = Some []"
| "ints_of (None # xs) = None"
| "ints_of (Some i # xs) = (case ints_of xs of None \<Rightarrow> None | Some is \<Rightarrow> Some (i # is))"

text \<open>
  The loop over \<open>settings["pinging_enabled"].items()\<close>: a key on which \<open>int(k)\<close> raises
  is skipped (\<open>except ValueError: pass\<close>).
\<close>

fun fill_pinging :: "(int \<rightharpoonup> bool) \<Rightarrow> (json_int \<times> bool) list \<Rightarrow> (int \<rightharpoonup> bool)" where
  "fill_pinging m [] = m"
| "fill_pinging m ((None, v) # kvs) = fill_pinging m kvs"
| "fill_pinging m ((Some k, v) # kvs) = fill_pinging (m(k \<mapsto> v)) kvs"

text \<open>
  The loop over \<open>settings.get("whitelist", {}).items()\<close>. A channel on which \<open>int(ch)\<close>
  raises stops the loop with the entries stored so far.
\<close>

fun fill_whitelist ::
  "(string \<rightharpoonup> int list) \<Rightarrow> (string \<times> json_int list) list \<Rightarrow> (string \<rightharpoonup> int list) \<times> bool" where
  "fill_whitelist m [] = (m, True)"
| "fill_whitelist m ((k, chs) # kvs) =
     (case ints_of chs of
        None \<Rightarrow> (m, False)
      | Some cs \<Rightarrow> fill_whitelist (m(k \<mapsto> cs)) kvs)"

text \<open>
  \<open>load_settings\<close> (lines 89 to 125). The result is the state it leaves behind and the
  exception it raised, if any: a raise in the middle keeps the updates made before it.
\<close>

definition set_blocked_paused :: "bot_state \<Rightarrow> bot_state" where
  "set_blocked_paused st =
     st\<lparr>blocked_users := set (List.map_filter id (s_blocked (settings st))),
        paused_servers := set (List.map_filter id (s_paused (settings st)))\<rparr>"

definition load_settings :: "bot_state \<Rightarrow> bot_state \<times> load_error option" where
  "load_settings st =
     (case on_disk st of
        NoFile \<Rightarrow> (set_blocked_paused (st\<lparr>settings := default_settings\<rparr>), None)
      | NotJSON \<Rightarrow> (st, Some JSONDecodeError)
      | Doc loaded \<Rightarrow>
          (let s1 = update_settings (settings st) loaded;
               st1 = st\<lparr>settings := s1,
                        pinging_enabled := fill_pinging Map.empty (s_pinging_enabled s1)\<rparr>
           in case ints_of (s_blocked s1) of
                None \<Rightarrow> (st1, Some ValueError)
              | Some bs \<Rightarrow>
                  (let st2 = st1\<lparr>settings := (settings st1)\<lparr>s_blocked := map Some bs\<rparr>\<rparr>
                   in case ints_of (s_paused s1) of
                        None \<Rightarrow> (st2, Some ValueError)
                      | Some ps \<Rightarrow>
                          (let st3 = st2\<lparr>settings := (settings st2)\<lparr>s_paused := map Some ps\<rparr>\<rparr>;
                               (wl, ok) = fill_whitelist Map.empty (s_whitelist s1);
                               st4 = st3\<lparr>whitelisted_channels := wl\<rparr>
                           in if ok then (set_blocked_paused st4, None)
                              else (st4, Some ValueError)))))"

section \<open>Global command check\<close>

text \<open>
  A guild: its id and its channels, each with whether it is a \<open>TextChannel\<close> or a
  \<open>Thread\<close>.
\<close>

record guild =
  guild_id :: int
  channels :: "(int \<times> bool) list"

record command_ctx =
  ctx_guild :: "guild option"
  ctx_author :: int
  ctx_channel :: int

datatype gate_notice = UserBlocked | BotPaused | ChannelNotWhitelisted

datatype check_result = CheckTrue | CheckFalse | CheckRaised load_error

text \<open>
  The whitelist test of lines 233 to 235 and 589 to 592:
  \<open>guild_key in whitelisted_channels and whitelisted_channels[guild_key]\<close>, then
  \<open>channel.id not in whitelisted_channels[guild_key]\<close>.
\<close>

definition whitelist_active :: "bot_state \<Rightarrow> int \<Rightarrow> bool" where
  "whitelist_active st gid =
     (case whitelisted_channels st (str_int gid) of None \<Rightarrow> False | Some chs \<Rightarrow> chs \<noteq> [])"

definition channel_whitelisted :: "bot_state \<Rightarrow> int \<Rightarrow> int \<Rightarrow> bool" where
  "channel_whitelisted st gid ch =
     (case whitelisted_channels st (str_int gid) of None \<Rightarrow> False | Some chs \<Rightarrow> ch \<in> set chs)"

text \<open>
  \<open>global_command_check\<close> (lines 197 to 245). The result is the value of the check, the
  notices it sent with \<open>ctx.send\<close> (each with its \<open>delete_after\<close> seconds) and the state.
\<close>

definition global_command_check ::
  "bot_state \<Rightarrow> command_ctx \<Rightarrow> check_result \<times> (gate_notice \<times> nat) list \<times> bot_state" where
  "global_command_check st ctx =
     (case ctx_guild ctx of
        None \<Rightarrow> (CheckTrue, [], st)
      | Some g \<Rightarrow>
          (case load_settings st of
             (st', Some e) \<Rightarrow> (CheckRaised e, [], st')
           | (st', None) \<Rightarrow>
               if ctx_author ctx \<in> blocked_users st' then (CheckFalse, [(UserBlocked, 15)], st')
               else if guild_id g \<in> paused_servers st' then (CheckFalse, [(BotPaused, 30)], st')
               else if whitelist_active st' (guild_id g)
                       \<and> \<not> channel_whitelisted st' (guild_id g) (ctx_channel ctx)
                    then (CheckFalse, [(ChannelNotWhitelisted, 30)], st')
               else (CheckTrue, [], st')))"

section \<open>Messages, collaborators and the trace of a handler run\<close>

record attachment =
  filename :: string
  url :: string

text \<open>
  A \<open>discord.Message\<close> as \<open>on_message\<close> reads it. \<open>author_admin\<close> is
  \<open>message.author.guild_permissions.administrator\<close>, \<open>mentions_bot\<close> is
  \<open>bot.user in message.mentions\<close>, \<open>reference\<close> is the id of the message replied to.
\<close>

record message =
  author_id :: int
  author_bot :: bool
  author_admin :: bool
  msg_guild :: "guild option"
  channel_id :: int
  content :: string
  attachments :: "attachment list"
  mentions_bot :: bool
  reference :: "int option"

datatype branch = Merge | BatchEdit | SingleEdit | Generation

text \<open>The embeds \<open>on_message\<close> sends as replies to a mention command.\<close>

datatype reply_kind =
    ChannelActivated | ChannelDeactivated | AlreadyInactive
  | MemoryUnavailable | AdminOnly | ReloadComplete nat

text \<open>
  The embeds the dispatcher sends with \<open>message.channel.send\<close>, by title and branch.
  \<open>NSFWDetected\<close>: "NSFW Content Detected"; \<open>CapabilityFailed\<close>: "Merge Failed" and
  "Editing Failed" with the upstream error; \<open>ContentBlocked\<close>: "Content Blocked" (Discord
  error 20009); \<open>SendFailed\<close>: the "... Failed" embeds of a failed send;
  \<open>PartialSuccess\<close> and \<open>BatchAllFailed\<close> carry the error lines shown and the number left
  out.
\<close>

datatype notice =
    NSFWDetected branch
  | CapabilityFailed branch string
  | ContentBlocked branch
  | SendFailed branch
  | PartialSuccess "string list" nat
  | BatchAllFailed "string list" nat
  | NoImageFound
  | NeedTwoImages
  | InsufficientImages
  | GenerationFailed

text \<open>
  What a run of the handler does to the outside, in order. \<open>SendEmbed n d a\<close> is
  \<open>channel.send(embed=n, delete_after=d, allowed_mentions=a)\<close> with \<open>None\<close> for an
  argument that is not passed; \<open>SendFiles b names ping\<close> sends the result files of branch
  \<open>b\<close>; the \<open>Detect\<close> events are the four calls of the intent classifier; the \<open>Call\<close>
  events are the calls of the AI capabilities.
\<close>

datatype event =
    Reply reply_kind
  | SendEmbed notice "nat option" "bool option"
  | SendFiles branch "string list" bool
  | SendText string bool
  | SendLong string bool
  | DetectGeneration string
  | DetectEditing string bool
  | DetectWebSearch string
  | DetectMerge string nat
  | CallClassify string
  | CallMerge string "string list"
  | CallEdit string string int
  | CallGenerate string int
  | CallSearch string
  | CallChat string string
  | CallDownload string
  | CallAnalyze string
  | CallRespond string
  | ProcessCommands

datatype 'a outcome = Ok 'a | Fails string

datatype send_outcome = Sent int | Rejected int

datatype gen_image = GenNone | GenNSFW | GenBytes

datatype gen_result = GenTuple gen_image int string "string option" | GenOther

text \<open>
  The collaborators of one handler run, as functions of what they are called with:
  the intent classifier and the capabilities of utils, the Discord API
  (\<open>fetch_message\<close>, \<open>get_context\<close>, sends), \<open>re.sub\<close> for the merge prompt and the
  generator behind \<open>random.randint\<close> (the raw value of the n-th draw). \<open>Fails\<close> is a
  raised exception with its \<open>str\<close>; \<open>Rejected c\<close> is a \<open>discord.HTTPException\<close> with
  code \<open>c\<close>. An image result is \<open>True\<close> when \<open>img_data\<close> is there.
\<close>

record env =
  ctx_valid :: bool
  fetch_message :: "int \<Rightarrow> attachment list option"
  detect_image_generation_intent :: "string \<Rightarrow> bool"
  detect_image_editing_intent :: "string \<Rightarrow> bool \<Rightarrow> bool"
  detect_web_search_intent :: "string \<Rightarrow> bool"
  detect_image_merge_intent :: "string \<Rightarrow> nat \<Rightarrow> bool"
  classify_prompt :: "string \<Rightarrow> string outcome"
  sub_merge :: "string \<Rightarrow> string"
  generate_image_merge :: "string \<Rightarrow> string list \<Rightarrow> (bool \<times> string \<times> string option) outcome"
  generate_img2img_with_retry ::
    "nat \<Rightarrow> string \<Rightarrow> string \<Rightarrow> int \<Rightarrow> (bool \<times> string \<times> string option) outcome"
  generate_image :: "string \<Rightarrow> int \<Rightarrow> gen_result outcome"
  get_valid_search_results :: "string \<Rightarrow> string outcome"
  generate_ai_response :: "string \<Rightarrow> string \<Rightarrow> (string \<times> string option) outcome"
  http_get :: "string \<Rightarrow> (nat \<times> string) outcome"
  analyze_image :: "string \<Rightarrow> string outcome"
  generate_response_web :: "string \<Rightarrow> string outcome"
  channel_send :: "event \<Rightarrow> send_outcome"
  rand_raw :: "nat \<Rightarrow> nat"

datatype exn = HTTPException int | CollaboratorError string

datatype flow = Returned | Raised exn

text \<open>
  A piece of the handler yields the events it caused, the state it left and how it
  ended: \<open>None\<close> when control goes on to the next statement.
\<close>

type_synonym step = "event list \<times> bot_state \<times> flow option"

definition and_then :: "step \<Rightarrow> (bot_state \<Rightarrow> step) \<Rightarrow> step" where
  "and_then a f =
     (case a of
        (es, st, Some fl) \<Rightarrow> (es, st, Some fl)
      | (es, st, None) \<Rightarrow> (case f st of (es', st', r) \<Rightarrow> (es @ es', st', r)))"

definition return_now :: "bot_state \<Rightarrow> step" where
  "return_now st = ([], st, Some Returned)"

text \<open>A send outside any \<open>try\<close>: a rejected send leaves the handler as an exception.\<close>

definition send :: "env \<Rightarrow> event \<Rightarrow> bot_state \<Rightarrow> step" where
  "send en e st =
     (case channel_send en e of
        Sent i \<Rightarrow> ([e], st, None)
      | Rejected c \<Rightarrow> ([e], st, Some (Raised (HTTPException c))))"

text \<open>
  \<open>random.randint(a, b)\<close> returns an integer N with a <= N <= b; \<open>r\<close> is the raw value
  the generator draws.
\<close>

definition randint :: "int \<Rightarrow> int \<Rightarrow> nat \<Rightarrow> int" where
  "randint a b r = a + int r mod (b - a + 1)"

section \<open>Image collection (lines 540 to 563)\<close>

definition image_exts :: "string list" where
  "image_exts = [''.png'', ''.jpg'', ''.jpeg'', ''.gif'', ''.webp'']"

definition is_image :: "attachment \<Rightarrow> bool" where
  "is_image att = list_ex (endswith (lower (filename att))) image_exts"

definition has_images_in_message :: "attachment list \<Rightarrow> bool" where
  "has_images_in_message atts = list_ex is_image atts"

definition count_images_in_message :: "attachment list \<Rightarrow> nat" where
  "count_images_in_message atts = length (filter is_image atts)"

text \<open>
  The locals \<open>current_images\<close>, \<open>current_image_count\<close>, \<open>ref_msg\<close> (by its attachments),
  \<open>ref_has_images\<close> and \<open>total_image_count\<close>. A reference that cannot be fetched
  (\<open>NotFound\<close>, \<open>Forbidden\<close>, \<open>HTTPException\<close>) leaves \<open>ref_msg\<close> at \<open>None\<close>.
\<close>

record images =
  current_images :: bool
  current_image_count :: nat
  ref_msg :: "attachment list option"
  ref_has_images :: bool
  total_image_count :: nat

definition collect_images :: "env \<Rightarrow> message \<Rightarrow> images" where
  "collect_images en m =
     (let cur = has_images_in_message (attachments m);
          n = count_images_in_message (attachments m);
          none = \<lparr>current_images = cur, current_image_count = n, ref_msg = None,
                  ref_has_images = False, total_image_count = n\<rparr>
      in case reference m of
           None \<Rightarrow> none
         | Some rid \<Rightarrow>
             (case fetch_message en rid of
                None \<Rightarrow> none
              | Some ratts \<Rightarrow>
                  \<lparr>current_images = cur, current_image_count = n, ref_msg = Some ratts,
                   ref_has_images = has_images_in_message ratts,
                   total_image_count =
                     (if has_images_in_message ratts then n + count_images_in_message ratts
                      else n)\<rparr>))"

text \<open>The list \<open>image_urls\<close> of the merge and batch branches: current message first.\<close>

definition image_urls :: "message \<Rightarrow> images \<Rightarrow> string list" where
  "image_urls m imgs =
     map url (filter is_image (attachments m)) @
     (case ref_msg imgs of None \<Rightarrow> [] | Some ratts \<Rightarrow> map url (filter is_image ratts))"

definition first_url :: "attachment list \<Rightarrow> string option" where
  "first_url atts = (case filter is_image atts of [] \<Rightarrow> None | a # as \<Rightarrow> Some (url a))"

text \<open>
  The local \<open>image_url\<close> of the single-edit and analysis branches, and its truth value
  in \<open>if image_url:\<close>.
\<close>

definition image_url :: "message \<Rightarrow> images \<Rightarrow> string option" where
  "image_url m imgs =
     (if current_images imgs then first_url (attachments m)
      else if ref_has_images imgs then
        (case ref_msg imgs of None \<Rightarrow> None | Some ratts \<Rightarrow> first_url ratts)
      else None)"

definition truthy_url :: "string option \<Rightarrow> bool" where
  "truthy_url u = (case u of None \<Rightarrow> False | Some x \<Rightarrow> x \<noteq> [])"

section \<open>Mention commands (lines 407 to 528)\<close>

definition authorized :: "config \<Rightarrow> message \<Rightarrow> bool" where
  "authorized cfg m =
     (author_id m = OWNER_ID cfg \<or> (msg_guild m \<noteq> None \<and> author_admin m))"

definition reply_and_return :: "env \<Rightarrow> reply_kind \<Rightarrow> bot_state \<Rightarrow> step" where
  "reply_and_return en k st = and_then (send en (Reply k) st) return_now"

text \<open>The loop of the reload command over \<open>message.guild.channels\<close>.\<close>

fun wack_loop :: "memory \<Rightarrow> int \<Rightarrow> (int \<times> bool) list \<Rightarrow> memory \<times> nat" where
  "wack_loop mem gid [] = (mem, 0)"
| "wack_loop mem gid ((ch, is_text) # chs) =
     (if is_text then
        (case stm mem (str_int gid @ ''_'' @ str_int ch) of
           None \<Rightarrow> wack_loop mem gid chs
         | Some h \<Rightarrow>
             (case wack_loop (reset mem (str_int gid @ ''_'' @ str_int ch)) gid chs of
                (mem', n) \<Rightarrow> (mem', Suc n)))
      else wack_loop mem gid chs)"

definition mention_command :: "config \<Rightarrow> env \<Rightarrow> message \<Rightarrow> guild \<Rightarrow> bot_state \<Rightarrow> step" where
  "mention_command cfg en m g st =
     (if mentions_bot m then
        if contains (lower (content m)) ''activate'' then
          (if authorized cfg m then
             (case chat_memory st of
                Some mem \<Rightarrow>
                  reply_and_return en ChannelActivated
                    (st\<lparr>chat_memory := Some (activate_channel mem (channel_id m))\<rparr>)
              | None \<Rightarrow> reply_and_return en MemoryUnavailable st)
           else reply_and_return en AdminOnly st)
        else if contains (lower (content m)) ''deactivate'' then
          (if authorized cfg m then
             (case chat_memory st of
                Some mem \<Rightarrow>
                  if is_channel_active mem (channel_id m) then
                    reply_and_return en ChannelDeactivated
                      (st\<lparr>chat_memory := Some (deactivate_channel mem (channel_id m))\<rparr>)
                  else reply_and_return en AlreadyInactive st
              | None \<Rightarrow> reply_and_return en MemoryUnavailable st)
           else reply_and_return en AdminOnly st)
        else if contains (lower (content m)) ''wack'' then
          (if authorized cfg m then
             (case chat_memory st of
                Some mem \<Rightarrow>
                  (case wack_loop mem (guild_id g) (channels g) of
                     (mem', cleared) \<Rightarrow>
                       reply_and_return en (ReloadComplete cleared) (st\<lparr>chat_memory := Some mem'\<rparr>))
              | None \<Rightarrow> reply_and_return en MemoryUnavailable st)
           else reply_and_return en AdminOnly st)
        else ([], st, None)
      else ([], st, None))"

section \<open>Trigger eligibility (lines 573 to 603)\<close>

definition channel_active :: "bot_state \<Rightarrow> int \<Rightarrow> bool" where
  "channel_active st ch =
     (case chat_memory st of None \<Rightarrow> False | Some mem \<Rightarrow> is_channel_active mem ch)"

definition should_respond :: "config \<Rightarrow> bot_state \<Rightarrow> message \<Rightarrow> bool" where
  "should_respond cfg st m =
     (if channel_active st (channel_id m) then True
      else if contains (lower (content m)) (BOT_NAME cfg) then
        (case msg_guild m of
           Some g \<Rightarrow>
             (if whitelist_active st (guild_id g)
              then channel_whitelisted st (guild_id g) (channel_id m)
              else True)
         | None \<Rightarrow> True)
      else False)"

section \<open>Intent flags (lines 605 to 614)\<close>

record intents =
  wants_generation :: bool
  wants_editing :: bool
  wants_web_search :: bool
  wants_merge :: bool

definition has_any_images :: "images \<Rightarrow> bool" where
  "has_any_images imgs = (current_images imgs \<or> ref_has_images imgs)"

definition clean_message_content :: "message \<Rightarrow> string" where
  "clean_message_content m = strip (content m)"

definition classify :: "env \<Rightarrow> message \<Rightarrow> images \<Rightarrow> intents" where
  "classify en m imgs =
     \<lparr>wants_generation =
        (detect_image_generation_intent en (clean_message_content m) \<and> \<not> has_any_images imgs),
      wants_editing =
        detect_image_editing_intent en (clean_message_content m) (has_any_images imgs),
      wants_web_search = detect_web_search_intent en (clean_message_content m),
      wants_merge =
        detect_image_merge_intent en (clean_message_content m) (total_image_count imgs)\<rparr>"

definition classify_events :: "message \<Rightarrow> images \<Rightarrow> event list" where
  "classify_events m imgs =
     [DetectGeneration (clean_message_content m),
      DetectEditing (clean_message_content m) (has_any_images imgs),
      DetectWebSearch (clean_message_content m),
      DetectMerge (clean_message_content m) (total_image_count imgs)]"

section \<open>The dispatcher (lines 616 to 1100)\<close>

definition ping_enabled :: "bot_state \<Rightarrow> guild \<Rightarrow> bool" where
  "ping_enabled st g = (case pinging_enabled st (guild_id g) of None \<Rightarrow> True | Some b \<Rightarrow> b)"

text \<open>\<open>error or 'Unknown error'\<close>.\<close>

definition error_or_unknown :: "string option \<Rightarrow> string" where
  "error_or_unknown err =
     (case err of None \<Rightarrow> ''Unknown error'' | Some e \<Rightarrow> if e = [] then ''Unknown error'' else e)"

text \<open>
  The NSFW pre-check, written four times in the source (lines 643 to 654, 725 to 736,
  841 to 852, 935 to 946) with the text checked and the wording of the notice as the
  only differences. Its \<open>try\<close> covers the send of the notice: when that send is
  rejected, \<open>except Exception: pass\<close> lets the branch go on.
\<close>

definition nsfw_check :: "env \<Rightarrow> branch \<Rightarrow> string \<Rightarrow> bot_state \<Rightarrow> step" where
  "nsfw_check en b txt st =
     (case classify_prompt en txt of
        Fails msg \<Rightarrow> ([CallClassify txt], st, None)
      | Ok label \<Rightarrow>
          if label = ''NSFW'' then
            (case channel_send en (SendEmbed (NSFWDetected b) (Some 30) None) of
               Sent i \<Rightarrow>
                 ([CallClassify txt, SendEmbed (NSFWDetected b) (Some 30) None], st, Some Returned)
             | Rejected c \<Rightarrow>
                 ([CallClassify txt, SendEmbed (NSFWDetected b) (Some 30) None], st, None))
          else ([CallClassify txt], st, None))"

text \<open>
  The send of a result with its \<open>except discord.HTTPException\<close> handler (lines 665 to
  693, 759 to 792, 862 to 890, 960 to 988): on success the metadata entry is stored
  under \<open>str(sent_msg.id)\<close> and control goes on; on a rejected send the handler sends
  its notice and returns.
\<close>

definition send_result ::
  "env \<Rightarrow> branch \<Rightarrow> string list \<Rightarrow> bool \<Rightarrow> metadata \<Rightarrow> bot_state \<Rightarrow> step" where
  "send_result en b files ping meta st =
     (case channel_send en (SendFiles b files ping) of
        Sent i \<Rightarrow>
          ([SendFiles b files ping],
           st\<lparr>image_metadata := (image_metadata st)(str_int i \<mapsto> meta)\<rparr>, None)
      | Rejected c \<Rightarrow>
          and_then
            (and_then ([SendFiles b files ping], st, None)
               (send en (SendEmbed (if c = 20009 then ContentBlocked b else SendFailed b)
                           None (Some ping))))
            return_now)"

definition merge_prompt :: "env \<Rightarrow> message \<Rightarrow> string" where
  "merge_prompt en m =
     (if strip (sub_merge en (clean_message_content m)) = [] then ''combine these images''
      else strip (sub_merge en (clean_message_content m)))"

definition merge_branch :: "env \<Rightarrow> message \<Rightarrow> guild \<Rightarrow> images \<Rightarrow> intents \<Rightarrow> bot_state \<Rightarrow> step" where
  "merge_branch en m g imgs its st =
     (if wants_merge its \<and> 2 \<le> total_image_count imgs then
        if 2 \<le> length (image_urls m imgs) then
          and_then (nsfw_check en Merge (merge_prompt en m) st) (\<lambda>st.
            case generate_image_merge en (merge_prompt en m) (image_urls m imgs) of
              Fails msg \<Rightarrow>
                ([CallMerge (merge_prompt en m) (image_urls m imgs)], st,
                 Some (Raised (CollaboratorError msg)))
            | Ok (img_data, final_url, err) \<Rightarrow>
                and_then ([CallMerge (merge_prompt en m) (image_urls m imgs)], st, None) (\<lambda>st.
                  if img_data \<and> err = None then
                    and_then
                      (send_result en Merge [''merged_image.png''] (ping_enabled st g)
                         (MergeMeta (merge_prompt en m) (image_urls m imgs)) st)
                      return_now
                  else
                    and_then
                      (send en (SendEmbed (CapabilityFailed Merge (error_or_unknown err))
                                  (Some 30) None) st)
                      return_now))
        else ([], st, None)
      else ([], st, None))"

text \<open>
  The loop of the batch branch (lines 741 to 752) from index \<open>i\<close> on: the calls made,
  the names of the edited files and the error lines, each in the order of the images.
\<close>

fun edit_loop :: "env \<Rightarrow> string \<Rightarrow> nat \<Rightarrow> string list \<Rightarrow> event list \<times> string list \<times> string list" where
  "edit_loop en txt i [] = ([], [], [])"
| "edit_loop en txt i (u # us) =
     (case edit_loop en txt (Suc i) us of
        (es, files, failed) \<Rightarrow>
          (case generate_img2img_with_retry en i txt u (randint 100000 999999 (rand_raw en i)) of
             Ok (img_data, final_url, err) \<Rightarrow>
               if img_data then
                 (CallEdit txt u (randint 100000 999999 (rand_raw en i)) # es,
                  (''edited_image_'' @ str_nat (Suc i) @ ''.png'') # files, failed)
               else
                 (CallEdit txt u (randint 100000 999999 (rand_raw en i)) # es, files,
                  (''Image '' @ str_nat (Suc i) @ '': '' @ error_or_unknown err) # failed)
           | Fails msg \<Rightarrow>
               (CallEdit txt u (randint 100000 999999 (rand_raw en i)) # es, files,
                (''Image '' @ str_nat (Suc i) @ '': '' @ msg) # failed)))"

definition batch_results :: "env \<Rightarrow> message \<Rightarrow> guild \<Rightarrow> images \<Rightarrow> string list \<Rightarrow> string list \<Rightarrow> bot_state \<Rightarrow> step" where
  "batch_results en m g imgs files failed st =
     (if files \<noteq> [] then
        and_then
          (send_result en BatchEdit files (ping_enabled st g)
             (BatchEditMeta (clean_message_content m) (image_urls m imgs)
                (length files) (length failed)) st)
          (\<lambda>st. if failed \<noteq> [] then
                  and_then
                    (send en (SendEmbed (PartialSuccess (take 3 failed) (length failed - 3))
                                (Some 30) None) st)
                    return_now
                else return_now st)
      else
        and_then
          (send en (SendEmbed (BatchAllFailed (take 5 failed) (length failed - 5))
                      (Some 30) None) st)
          return_now)"

definition batch_branch :: "env \<Rightarrow> message \<Rightarrow> guild \<Rightarrow> images \<Rightarrow> intents \<Rightarrow> bot_state \<Rightarrow> step" where
  "batch_branch en m g imgs its st =
     (if wants_editing its \<and> 2 \<le> total_image_count imgs \<and> \<not> wants_merge its then
        if 2 \<le> length (image_urls m imgs) then
          and_then (nsfw_check en BatchEdit (clean_message_content m) st) (\<lambda>st.
            case edit_loop en (clean_message_content m) 0 (image_urls m imgs) of
              (es, files, failed) \<Rightarrow>
                and_then (es, st, None) (batch_results en m g imgs files failed))
        else ([], st, None)
      else ([], st, None))"

definition single_edit :: "env \<Rightarrow> message \<Rightarrow> guild \<Rightarrow> string \<Rightarrow> bot_state \<Rightarrow> step" where
  "single_edit en m g u st =
     (case generate_img2img_with_retry en 0 (clean_message_content m) u
             (randint 100000 999999 (rand_raw en 0)) of
        Fails msg \<Rightarrow>
          ([CallEdit (clean_message_content m) u (randint 100000 999999 (rand_raw en 0))], st,
           Some (Raised (CollaboratorError msg)))
      | Ok (img_data, final_url, err) \<Rightarrow>
          and_then
            ([CallEdit (clean_message_content m) u (randint 100000 999999 (rand_raw en 0))],
             st, None)
            (\<lambda>st. if img_data then
                    and_then
                      (send_result en SingleEdit [''edited_image.png''] (ping_enabled st g)
                         (Img2ImgMeta (clean_message_content m)
                            (randint 100000 999999 (rand_raw en 0)) u) st)
                      return_now
                  else
                    and_then
                      (send en (SendEmbed (CapabilityFailed SingleEdit (error_or_unknown err))
                                  (Some 30) None) st)
                      return_now))"

definition single_branch :: "env \<Rightarrow> message \<Rightarrow> guild \<Rightarrow> images \<Rightarrow> intents \<Rightarrow> bot_state \<Rightarrow> step" where
  "single_branch en m g imgs its st =
     (if wants_editing its \<and> has_any_images imgs \<and> total_image_count imgs = 1 then
        (case image_url m imgs of
           None \<Rightarrow> ([], st, None)
         | Some u \<Rightarrow>
             if u \<noteq> [] then
               and_then (nsfw_check en SingleEdit (clean_message_content m) st)
                 (single_edit en m g u)
             else ([], st, None))
      else ([], st, None))"

text \<open>The three corrective notices (lines 900 to 927).\<close>

definition corrective_branch :: "env \<Rightarrow> images \<Rightarrow> intents \<Rightarrow> bot_state \<Rightarrow> step" where
  "corrective_branch en imgs its st =
     (if wants_editing its \<and> \<not> has_any_images imgs then
        and_then (send en (SendEmbed NoImageFound (Some 30) None) st) return_now
      else if wants_merge its \<and> total_image_count imgs = 1 then
        and_then (send en (SendEmbed NeedTwoImages (Some 30) None) st) return_now
      else if wants_merge its \<and> total_image_count imgs < 2 then
        and_then (send en (SendEmbed InsufficientImages (Some 30) None) st) return_now
      else ([], st, None))"

definition generation_send :: "env \<Rightarrow> message \<Rightarrow> guild \<Rightarrow> gen_result \<Rightarrow> bot_state \<Rightarrow> step" where
  "generation_send en m g r st =
     (case r of
        GenTuple img_data seed final_url ai_params \<Rightarrow>
          if img_data = GenBytes then
            and_then
              (send_result en Generation [''generated_image.png''] (ping_enabled st g)
                 (GenerationMeta (clean_message_content m) seed ai_params) st)
              return_now
          else ([], st, None)
      | GenOther \<Rightarrow> ([], st, None))"

definition generation_branch :: "env \<Rightarrow> message \<Rightarrow> guild \<Rightarrow> intents \<Rightarrow> bot_state \<Rightarrow> step" where
  "generation_branch en m g its st =
     (if wants_generation its then
        and_then (nsfw_check en Generation (clean_message_content m) st) (\<lambda>st.
          case generate_image en (clean_message_content m) (author_id m) of
            Fails msg \<Rightarrow>
              ([CallGenerate (clean_message_content m) (author_id m)], st,
               Some (Raised (CollaboratorError msg)))
          | Ok r \<Rightarrow>
              and_then ([CallGenerate (clean_message_content m) (author_id m)], st, None) (\<lambda>st.
                and_then (generation_send en m g r st) (\<lambda>st.
                  and_then (send en (SendEmbed GenerationFailed (Some 30) None) st)
                    return_now)))
      else ([], st, None))"

definition web_search_branch :: "env \<Rightarrow> message \<Rightarrow> guild \<Rightarrow> intents \<Rightarrow> bot_state \<Rightarrow> step" where
  "web_search_branch en m g its st =
     (if wants_web_search its then
        (case get_valid_search_results en (clean_message_content m) of
           Fails msg \<Rightarrow>
             ([CallSearch (clean_message_content m)], st, Some (Raised (CollaboratorError msg)))
         | Ok results \<Rightarrow>
             if results \<noteq> [] then
               (case generate_ai_response en (clean_message_content m) results of
                  Fails msg \<Rightarrow>
                    ([CallSearch (clean_message_content m),
                      CallChat (clean_message_content m) results], st,
                     Some (Raised (CollaboratorError msg)))
                | Ok (response, err) \<Rightarrow>
                    and_then
                      ([CallSearch (clean_message_content m),
                        CallChat (clean_message_content m) results], st, None)
                      (\<lambda>st. if response \<noteq> [] \<and> (err = None \<or> err = Some []) then
                              and_then (send en (SendLong response (ping_enabled st g)) st)
                                return_now
                            else ([], st, None)))
             else ([CallSearch (clean_message_content m)], st, None))
      else ([], st, None))"

text \<open>
  The name \<open>message_content\<close> (lines 1078 and 1082). Nothing in \<open>on_message\<close> assigns
  it and main.py has no module-level name \<open>message_content\<close> (the locals are
  \<open>message\<close>, \<open>message_lower\<close> and \<open>clean_message_content\<close>), so reading it raises
  \<open>NameError\<close>: the binding is \<open>None\<close>.
\<close>

definition message_content :: "string option" where
  "message_content = None"

definition combined_prompt :: "string \<Rightarrow> string \<Rightarrow> string" where
  "combined_prompt mc analysis =
     ''User message: '' @ mc @ [CHR 10, CHR 10] @ ''Image analysis: '' @ analysis @
     [CHR 10, CHR 10] @ ''Please respond to the user's message with the image context in mind.''"

text \<open>
  What follows the analysis inside the \<open>try\<close> (lines 1077 to 1095). A \<open>NameError\<close>, a
  failed call or a rejected send is caught by \<open>except Exception\<close> and control goes on.
\<close>

definition analysis_reply :: "env \<Rightarrow> guild \<Rightarrow> string \<Rightarrow> bot_state \<Rightarrow> step" where
  "analysis_reply en g analysis st =
     (case message_content of
        None \<Rightarrow> ([], st, None)
      | Some mc \<Rightarrow>
          if strip mc \<noteq> [] then
            (case generate_response_web en (combined_prompt mc analysis) of
               Fails msg \<Rightarrow> ([CallRespond (combined_prompt mc analysis)], st, None)
             | Ok response \<Rightarrow>
                 if response \<noteq> [] then
                   (case channel_send en (SendText response (ping_enabled st g)) of
                      Sent i \<Rightarrow>
                        ([CallRespond (combined_prompt mc analysis),
                          SendText response (ping_enabled st g)], st, Some Returned)
                    | Rejected c \<Rightarrow>
                        ([CallRespond (combined_prompt mc analysis),
                          SendText response (ping_enabled st g)], st, None))
                 else ([CallRespond (combined_prompt mc analysis)], st, None))
          else
            (case channel_send en (SendText analysis (ping_enabled st g)) of
               Sent i \<Rightarrow> ([SendText analysis (ping_enabled st g)], st, Some Returned)
             | Rejected c \<Rightarrow> ([SendText analysis (ping_enabled st g)], st, None)))"

definition analysis_branch :: "env \<Rightarrow> message \<Rightarrow> guild \<Rightarrow> images \<Rightarrow> intents \<Rightarrow> bot_state \<Rightarrow> step" where
  "analysis_branch en m g imgs its st =
     (if has_any_images imgs \<and> \<not> wants_editing its \<and> \<not> wants_merge its
           \<and> \<not> wants_generation its \<and> \<not> wants_web_search its then
        (case image_url m imgs of
           None \<Rightarrow> ([], st, None)
         | Some u \<Rightarrow>
             if u \<noteq> [] then
               (case http_get en u of
                  Fails msg \<Rightarrow> ([CallDownload u], st, None)
                | Ok (status, image_data) \<Rightarrow>
                    if status = 200 then
                      (case analyze_image en image_data of
                         Fails msg \<Rightarrow> ([CallDownload u, CallAnalyze image_data], st, None)
                       | Ok analysis \<Rightarrow>
                           and_then ([CallDownload u, CallAnalyze image_data], st, None)
                             (analysis_reply en g analysis))
                    else ([CallDownload u], st, None))
             else ([], st, None))
      else ([], st, None))"

definition process_commands :: "bot_state \<Rightarrow> step" where
  "process_commands st = ([ProcessCommands], st, Some Returned)"

text \<open>
  From the classifier on: the branches in the order of the source, each one ending the
  run or handing on to the next, with \<open>bot.process_commands\<close> last (line 1100).
\<close>

definition dispatch :: "env \<Rightarrow> message \<Rightarrow> guild \<Rightarrow> images \<Rightarrow> bot_state \<Rightarrow> step" where
  "dispatch en m g imgs st =
     and_then (classify_events m imgs, st, None) (\<lambda>st.
     and_then (merge_branch en m g imgs (classify en m imgs) st) (\<lambda>st.
     and_then (batch_branch en m g imgs (classify en m imgs) st) (\<lambda>st.
     and_then (single_branch en m g imgs (classify en m imgs) st) (\<lambda>st.
     and_then (corrective_branch en imgs (classify en m imgs) st) (\<lambda>st.
     and_then (generation_branch en m g (classify en m imgs) st) (\<lambda>st.
     and_then (web_search_branch en m g (classify en m imgs) st) (\<lambda>st.
     and_then (analysis_branch en m g imgs (classify en m imgs) st)
       process_commands)))))))"

definition current_prefix :: "config \<Rightarrow> bot_state \<Rightarrow> guild \<Rightarrow> string" where
  "current_prefix cfg st g =
     (case custom_prefixes st (str_int (guild_id g)) of None \<Rightarrow> DEFAULT_PREFIX cfg | Some p \<Rightarrow> p)"

definition is_command_text :: "config \<Rightarrow> bot_state \<Rightarrow> guild \<Rightarrow> message \<Rightarrow> bool" where
  "is_command_text cfg st g m =
     (startswith (strip (content m)) (current_prefix cfg st g)
      \<or> startswith (strip (content m)) ''/'')"

text \<open>Lines 530 to 603, after the mention commands.\<close>

definition after_mention :: "config \<Rightarrow> env \<Rightarrow> message \<Rightarrow> guild \<Rightarrow> bot_state \<Rightarrow> step" where
  "after_mention cfg en m g st =
     (if is_command_text cfg st g m then process_commands st
      else if ctx_valid en then return_now st
      else if should_respond cfg st m then dispatch en m g (collect_images en m) st
      else return_now st)"

definition finish :: "step \<Rightarrow> event list \<times> bot_state \<times> flow" where
  "finish a = (case a of (es, st, Some fl) \<Rightarrow> (es, st, fl) | (es, st, None) \<Rightarrow> (es, st, Returned))"

text \<open>
  \<open>on_message\<close> (lines 397 to 1100): the events of the run, the state after it and
  whether it returned or let an exception out.
\<close>

definition on_message :: "config \<Rightarrow> env \<Rightarrow> bot_state \<Rightarrow> message \<Rightarrow> event list \<times> bot_state \<times> flow" where
  "on_message cfg en st m =
     (if author_bot m then ([], st, Returned)
      else case msg_guild m of
        None \<Rightarrow> ([], st, Returned)
      | Some g \<Rightarrow>
          if author_id m \<in> blocked_users st then ([], st, Returned)
          else finish (and_then (mention_command cfg en m g st) (after_mention cfg en m g)))"

section \<open>Example inputs\<close>

definition cfg0 :: config where
  "cfg0 = \<lparr>DEFAULT_PREFIX = ''+'', OWNER_ID = 1, BOT_NAME = ''gacha''\<rparr>"

definition guild7 :: guild where
  "guild7 = \<lparr>guild_id = 7, channels = [(5, True), (6, True)]\<rparr>"

definition guild8 :: guild where
  "guild8 = \<lparr>guild_id = 8, channels = [(5, True)]\<rparr>"

definition mem_idle :: memory where
  "mem_idle = \<lparr>active = Map.empty, stm = Map.empty\<rparr>"

definition mem_active5 :: memory where
  "mem_active5 = \<lparr>active = [5 \<mapsto> True], stm = Map.empty\<rparr>"

text \<open>Nothing blocked, paused, whitelisted or activated; no settings file.\<close>

definition st_idle :: bot_state where
  "st_idle =
     \<lparr>settings = default_settings, pinging_enabled = Map.empty, blocked_users = {},
      paused_servers = {}, whitelisted_channels = Map.empty, custom_prefixes = Map.empty,
      image_metadata = Map.empty, chat_memory = Some mem_idle, on_disk = NoFile\<rparr>"

text \<open>
  Guild 7 paused, its whitelist holding channel 100 only, and channel 5 activated.
\<close>

definition st_paused :: bot_state where
  "st_paused =
     st_idle\<lparr>paused_servers := {7}, whitelisted_channels := [''7'' \<mapsto> [100]],
             chat_memory := Some mem_active5\<rparr>"

text \<open>
  Nothing in memory, and a settings file that blocks user 42, pauses guild 8 and
  whitelists channel 100 of guild 7.
\<close>

definition st_gate :: bot_state where
  "st_gate =
     st_idle\<lparr>on_disk :=
       Doc \<lparr>l_logger = None, l_paused = Some [Some 8], l_blocked = Some [Some 42],
            l_imgurl_enabled = None, l_pinging_enabled = None,
            l_whitelist = Some [(''7'', [Some 100])]\<rparr>\<rparr>"

text \<open>
  Collaborators that find no intent, judge every prompt safe, succeed in every
  capability and accept every send as message 900.
\<close>

definition env0 :: env where
  "env0 =
     \<lparr>ctx_valid = False,
      fetch_message = (\<lambda>i. None),
      detect_image_generation_intent = (\<lambda>t. False),
      detect_image_editing_intent = (\<lambda>t h. False),
      detect_web_search_intent = (\<lambda>t. False),
      detect_image_merge_intent = (\<lambda>t n. False),
      classify_prompt = (\<lambda>t. Ok ''SAFE''),
      sub_merge = (\<lambda>t. t),
      generate_image_merge = (\<lambda>t us. Ok (True, ''https://cdn/merged'', None)),
      generate_img2img_with_retry = (\<lambda>i t u s. Ok (True, ''https://cdn/edited'', None)),
      generate_image = (\<lambda>t u. Ok (GenTuple GenBytes 4242 ''https://cdn/generated'' None)),
      get_valid_search_results = (\<lambda>t. Ok []),
      generate_ai_response = (\<lambda>t r. Ok ([], None)),
      http_get = (\<lambda>u. Ok (200, ''bytes'')),
      analyze_image = (\<lambda>d. Ok ''a cat on a sofa''),
      generate_response_web = (\<lambda>p. Ok ''nice cat''),
      channel_send = (\<lambda>e. Sent 900),
      rand_raw = (\<lambda>n. 123456789 + n)\<rparr>"

definition msg0 :: message where
  "msg0 =
     \<lparr>author_id = 2, author_bot = False, author_admin = False, msg_guild = Some guild7,
      channel_id = 5, content = ''draw a cat'', attachments = [], mentions_bot = False,
      reference = None\<rparr>"

definition photo :: attachment where
  "photo = \<lparr>filename = ''Photo.PNG'', url = ''https://cdn/photo.png''\<rparr>"

definition photo2 :: attachment where
  "photo2 = \<lparr>filename = ''second.jpeg'', url = ''https://cdn/second.jpeg''\<rparr>"

definition msg_deactivate :: message where
  "msg_deactivate =
     msg0\<lparr>mentions_bot := True, author_admin := True, content := ''<@99> Deactivate''\<rparr>"

definition msg_photo :: message where
  "msg_photo = msg0\<lparr>attachments := [photo], content := ''gacha what is this''\<rparr>"

definition msg_photo_only :: message where
  "msg_photo_only = msg0\<lparr>attachments := [photo], content := ''gacha''\<rparr>"

definition msg_dm :: message where
  "msg_dm = msg0\<lparr>msg_guild := None, content := ''hey Gacha, draw a cat''\<rparr>"

definition msg_edit :: message where
  "msg_edit = msg0\<lparr>content := ''gacha edit to make it night''\<rparr>"

definition env_gen :: env where
  "env_gen = env0\<lparr>detect_image_generation_intent := (\<lambda>t. True)\<rparr>"

definition env_edit :: env where
  "env_edit = env0\<lparr>detect_image_editing_intent := (\<lambda>t h. True)\<rparr>"

text \<open>Discord rejects every file with error 20009 and accepts every embed.\<close>

definition env_edit_rejected :: env where
  "env_edit_rejected =
     env_edit\<lparr>channel_send :=
       (\<lambda>e. case e of SendFiles b fs p \<Rightarrow> Rejected 20009 | _ \<Rightarrow> Sent 901)\<rparr>"

text \<open>The edit of the second image raises.\<close>

definition env_edit_partial :: env where
  "env_edit_partial =
     env_edit\<lparr>generate_img2img_with_retry :=
       (\<lambda>i t u s. if i = 0 then Ok (True, ''https://cdn/edited'', None) else Fails ''timeout'')\<rparr>"

definition msg_named :: message where
  "msg_named = msg0\<lparr>content := ''Gacha draw a cat''\<rparr>"

text \<open>User 2 blocked; and guild 7 with a whitelist that holds channel 100 only.\<close>

definition st_blocked :: bot_state where
  "st_blocked = st_idle\<lparr>blocked_users := {2}\<rparr>"

definition st_whitelist :: bot_state where
  "st_whitelist = st_idle\<lparr>whitelisted_channels := [''7'' \<mapsto> [100]]\<rparr>"

definition ctx_dm :: command_ctx where
  "ctx_dm = \<lparr>ctx_guild = None, ctx_author = 42, ctx_channel = 5\<rparr>"

definition msg_gen_photo :: message where
  "msg_gen_photo = msg0\<lparr>attachments := [photo]\<rparr>"

definition msg_reply :: message where
  "msg_reply = msg0\<lparr>reference := Some 55\<rparr>"

text \<open>Generation intent found in every text; message 55 can be fetched and has an image.\<close>

definition env_gen_ref :: env where
  "env_gen_ref = env_gen\<lparr>fetch_message := (\<lambda>i. if i = 55 then Some [photo2] else None)\<rparr>"

definition msg_edit_photo :: message where
  "msg_edit_photo = msg_named\<lparr>attachments := [photo]\<rparr>"

definition msg_two :: message where
  "msg_two = msg0\<lparr>attachments := [photo, photo2]\<rparr>"

text \<open>
  User 42 blocked in memory, and a settings file that cannot be loaded: not JSON at
  all, or with an entry of the block list that \<open>int\<close> refuses.
\<close>

definition st_badfile :: bot_state where
  "st_badfile = st_idle\<lparr>blocked_users := {42}, on_disk := NotJSON\<rparr>"

definition st_badlist :: bot_state where
  "st_badlist =
     st_idle\<lparr>blocked_users := {42},
       on_disk :=
         Doc \<lparr>l_logger = None, l_paused = None, l_blocked = Some [Some 42, None],
              l_imgurl_enabled = None, l_pinging_enabled = None, l_whitelist = None\<rparr>\<rparr>"

definition ctx_blocked :: command_ctx where
  "ctx_blocked = \<lparr>ctx_guild = Some guild8, ctx_author = 42, ctx_channel = 5\<rparr>"

section \<open>Predicates on events and traces\<close>

text \<open>A step emits only events that satisfy \<open>P\<close>.\<close>

definition emits :: "(event \<Rightarrow> bool) \<Rightarrow> step \<Rightarrow> bool" where
  "emits P a = list_all P (fst a)"

text \<open>The message takes one of the three keyword branches of lines 408 to 528.\<close>

definition is_mention_command :: "message \<Rightarrow> bool" where
  "is_mention_command m =
     (mentions_bot m \<and>
      (contains (lower (content m)) ''activate'' \<or> contains (lower (content m)) ''deactivate''
       \<or> contains (lower (content m)) ''wack''))"

text \<open>A call of a capability: NSFW classification, merge, edit, generation, search,
  chat completion, download, analysis.\<close>

definition is_capability_call :: "event \<Rightarrow> bool" where
  "is_capability_call e =
     (case e of
        CallClassify t \<Rightarrow> True | CallMerge t us \<Rightarrow> True | CallEdit t u s \<Rightarrow> True
      | CallGenerate t u \<Rightarrow> True | CallSearch t \<Rightarrow> True | CallChat t r \<Rightarrow> True
      | CallDownload u \<Rightarrow> True | CallAnalyze d \<Rightarrow> True | CallRespond p \<Rightarrow> True
      | _ \<Rightarrow> False)"

definition is_classifier_call :: "event \<Rightarrow> bool" where
  "is_classifier_call e =
     (case e of
        DetectGeneration t \<Rightarrow> True | DetectEditing t h \<Rightarrow> True | DetectWebSearch t \<Rightarrow> True
      | DetectMerge t n \<Rightarrow> True | _ \<Rightarrow> False)"

definition classified_or_dispatched :: "event list \<Rightarrow> bool" where
  "classified_or_dispatched es =
     (list_ex is_classifier_call es \<or> list_ex is_capability_call es)"

text \<open>What only the generation branch (lines 929 to 996) does.\<close>

definition of_generation_branch :: "event \<Rightarrow> bool" where
  "of_generation_branch e =
     (case e of
        CallGenerate t u \<Rightarrow> True
      | SendFiles b fs p \<Rightarrow> b = Generation
      | SendEmbed n d a \<Rightarrow>
          n = NSFWDetected Generation \<or> n = GenerationFailed \<or> n = ContentBlocked Generation
          \<or> n = SendFailed Generation
      | _ \<Rightarrow> False)"

text \<open>
  The \<open>delete_after\<close> of a dispatcher notice by its kind: none for the two notices that
  follow a rejected send, 30 seconds for every other one.
\<close>

definition notice_lifetime :: "notice \<Rightarrow> nat option" where
  "notice_lifetime n =
     (case n of ContentBlocked b \<Rightarrow> None | SendFailed b \<Rightarrow> None | _ \<Rightarrow> Some 30)"

definition lifetime_ok :: "event \<Rightarrow> bool" where
  "lifetime_ok e = (case e of SendEmbed n d a \<Rightarrow> d = notice_lifetime n | _ \<Rightarrow> True)"

definition seed_in_range :: "event \<Rightarrow> bool" where
  "seed_in_range e = (case e of CallEdit t u s \<Rightarrow> 100000 \<le> s \<and> s \<le> 999999 | _ \<Rightarrow> True)"

text \<open>The events of a dispatcher run are well formed: notices and edit calls.\<close>

definition well_formed :: "event \<Rightarrow> bool" where
  "well_formed e = (lifetime_ok e \<and> seed_in_range e)"

definition not_generation :: "event \<Rightarrow> bool" where
  "not_generation e = (\<not> of_generation_branch e)"

text \<open>
  A step started in \<open>st\<close> keeps the seeds: every img2img entry of the metadata store
  after it was there before or carries prompt, image and seed of an edit call the step
  made.
\<close>

definition seed_kept :: "bot_state \<Rightarrow> step \<Rightarrow> bool" where
  "seed_kept st a =
     (\<forall>k p s u. image_metadata (fst (snd a)) k = Some (Img2ImgMeta p s u) \<longrightarrow>
        image_metadata st k = Some (Img2ImgMeta p s u) \<or> CallEdit p u s \<in> set (fst a))"

text \<open>
  The message gets as far as the classifier: not from a bot, in a guild, author not
  blocked, no mention command, no prefixed or slash command, no valid command context,
  eligible to trigger.
\<close>

definition reaches_dispatcher :: "config \<Rightarrow> env \<Rightarrow> bot_state \<Rightarrow> message \<Rightarrow> guild \<Rightarrow> bool" where
  "reaches_dispatcher cfg en st m g =
     (\<not> author_bot m \<and> msg_guild m = Some g \<and> author_id m \<notin> blocked_users st
      \<and> \<not> is_mention_command m \<and> \<not> is_command_text cfg st g m \<and> \<not> ctx_valid en
      \<and> should_respond cfg st m)"

definition is_edit_call :: "event \<Rightarrow> bool" where
  "is_edit_call e = (case e of CallEdit t u s \<Rightarrow> True | _ \<Rightarrow> False)"

definition no_edit_call :: "event \<Rightarrow> bool" where
  "no_edit_call e = (\<not> is_edit_call e)"

text \<open>The edit calls among the events of a run, in their order.\<close>

definition edit_calls :: "event list \<Rightarrow> event list" where
  "edit_calls es = filter is_edit_call es"

text \<open>
  One edit call for each image of \<open>us\<close>, in order, with the text of the message as
  prompt and a seed of its own: the call for the j-th image has
  \<open>random.randint(100000, 999999)\<close> of the j-th draw of the generator.
\<close>

definition fresh_calls :: "env \<Rightarrow> message \<Rightarrow> string list \<Rightarrow> event list" where
  "fresh_calls en m us =
     map (\<lambda>(j, u). CallEdit (clean_message_content m) u (randint 100000 999999 (rand_raw en j)))
       (zip [0..<length us] us)"

text \<open>
  The edit calls among \<open>es\<close> are none, the one call for the single image, or the calls
  for all collected images, each with a freshly drawn seed.
\<close>

definition fresh :: "env \<Rightarrow> message \<Rightarrow> images \<Rightarrow> event list \<Rightarrow> bool" where
  "fresh en m imgs es =
     (\<exists>us. (us = [] \<or> (\<exists>u. image_url m imgs = Some u \<and> us = [u]) \<or> us = image_urls m imgs)
           \<and> edit_calls es = fresh_calls en m us)"

section \<open>Rules for running the model\<close>

lemmas ev_str = str_int_def str_nat.simps digit_char_def

lemmas ev_strings = contains_def startswith_def endswith_def lower_def lower_char_def
  upper_chars_def lower_chars_def strip_def
  is_space_def sublist_code suffix_to_prefix

lemmas ev_ex = cfg0_def guild7_def guild8_def mem_idle_def mem_active5_def st_idle_def
  st_paused_def st_gate_def env0_def msg0_def photo_def photo2_def default_settings_def
  msg_deactivate_def msg_photo_def msg_photo_only_def msg_dm_def msg_edit_def
  env_gen_def env_edit_def env_edit_rejected_def env_edit_partial_def
  msg_named_def st_blocked_def st_whitelist_def ctx_dm_def msg_gen_photo_def msg_reply_def
  env_gen_ref_def msg_edit_photo_def msg_two_def st_badfile_def st_badlist_def
  ctx_blocked_def

lemma and_then_Some [simp]: "and_then (es, st, Some fl) f = (es, st, Some fl)"
  by (simp add: and_then_def)

lemma and_then_None:
  "and_then (es, st, None) f = (case f st of (es', st', r) \<Rightarrow> (es @ es', st', r))"
  by (simp add: and_then_def)

lemmas ev_model = and_then_None on_message_def finish_def after_mention_def is_command_text_def
  current_prefix_def mention_command_def should_respond_def channel_active_def
  is_channel_active_def whitelist_active_def channel_whitelisted_def dispatch_def
  classify_events_def classify_def collect_images_def has_images_in_message_def
  count_images_in_message_def is_image_def image_exts_def has_any_images_def
  clean_message_content_def image_urls_def image_url_def first_url_def merge_branch_def
  merge_prompt_def batch_branch_def batch_results_def single_branch_def single_edit_def
  corrective_branch_def generation_branch_def generation_send_def web_search_branch_def
  analysis_branch_def analysis_reply_def message_content_def process_commands_def
  nsfw_check_def send_result_def send_def return_now_def ping_enabled_def
  error_or_unknown_def randint_def reply_and_return_def authorized_def activate_channel_def
  deactivate_channel_def

section \<open>The global command check\<close>




text \<open>A load that raises makes the check raise: the command is neither allowed nor denied.\<close>

lemma global_command_check_raises:
  assumes "ctx_guild ctx = Some g" and "load_settings st = (st', Some e)"
  shows "global_command_check st ctx = (CheckRaised e, [], st')"
  using assms by (simp add: global_command_check_def)








section \<open>Mention commands\<close>

lemma deactivate_contains_activate:
  "contains s ''deactivate'' \<Longrightarrow> contains s ''activate''"
proof -
  assume "contains s ''deactivate''"
  then obtain ps ss where "s = ps @ ''deactivate'' @ ss"
    by (auto simp: contains_def sublist_def)
  then have "s = (ps @ ''de'') @ ''activate'' @ ss" by simp
  then show ?thesis
    unfolding contains_def sublist_def by blast
qed

text \<open>
  The test for "activate" comes first and every text that holds "deactivate" holds
  "activate": the handler never sends the replies of the deactivate branch.
\<close>

lemma mention_command_never_deactivates:
  "Reply ChannelDeactivated \<notin> set (fst (mention_command cfg en m g st))
   \<and> Reply AlreadyInactive \<notin> set (fst (mention_command cfg en m g st))"
  by (auto simp: mention_command_def reply_and_return_def send_def return_now_def and_then_None
        dest: deactivate_contains_activate split: option.splits send_outcome.splits prod.splits)

text \<open>
  C2, at two messages of an administrator that mention the bot and say "Deactivate":
  in the activated channel 5 and in a channel that is not activated. Both times the
  handler runs the activate branch: it replies "Channel Activated" and the channel is
  active afterwards.
\<close>

theorem on_message_deactivate_activates:
  "on_message cfg0 env0 st_paused msg_deactivate =
     ([Reply ChannelActivated],
      st_paused\<lparr>chat_memory := Some (activate_channel mem_active5 5)\<rparr>, Returned)
   \<and> is_channel_active mem_active5 5
   \<and> is_channel_active (activate_channel mem_active5 5) 5
   \<and> on_message cfg0 env0 st_idle msg_deactivate =
     ([Reply ChannelActivated],
      st_idle\<lparr>chat_memory := Some (activate_channel mem_idle 5)\<rparr>, Returned)
   \<and> is_channel_active (activate_channel mem_idle 5) 5"
  by (simp add: ev_model ev_ex ev_strings ev_str)

section \<open>Image analysis\<close>

text \<open>
  C3, at a message with one image and text and at one with the image and the bot name
  only, both trigger-eligible and with no intent found: the image is downloaded and
  analysed, then nothing is sent and the message goes to command processing.
\<close>

theorem on_message_analysis_sends_nothing:
  "fst (on_message cfg0 env0 st_idle msg_photo) =
     [DetectGeneration ''gacha what is this'', DetectEditing ''gacha what is this'' True,
      DetectWebSearch ''gacha what is this'', DetectMerge ''gacha what is this'' 1,
      CallDownload ''https://cdn/photo.png'', CallAnalyze ''bytes'', ProcessCommands]
   \<and> fst (on_message cfg0 env0 st_idle msg_photo_only) =
     [DetectGeneration ''gacha'', DetectEditing ''gacha'' True,
      DetectWebSearch ''gacha'', DetectMerge ''gacha'' 1,
      CallDownload ''https://cdn/photo.png'', CallAnalyze ''bytes'', ProcessCommands]"
  by (simp add: ev_model ev_ex ev_strings ev_str)

section \<open>What a run can emit\<close>

lemma emits_nil [simp]: "emits P ([], st, r)"
  by (simp add: emits_def)

lemma emits_and_then:
  assumes "emits P a" and "\<And>st. emits P (f st)"
  shows "emits P (and_then a f)"
proof (cases a)
  case (fields es st r)
  show ?thesis
  proof (cases r)
    case None
    obtain es' st' r' where f: "f st = (es', st', r')" by (cases "f st")
    with assms(2)[of st] have "list_all P es'" by (simp add: emits_def)
    with fields None f assms(1) show ?thesis
      by (simp add: emits_def and_then_None)
  next
    case (Some fl)
    with fields assms(1) show ?thesis by (simp add: emits_def)
  qed
qed

lemma emits_return_now [simp]: "emits P (return_now st)"
  by (simp add: return_now_def)

lemma emits_send: "P e \<Longrightarrow> emits P (send en e st)"
  by (simp add: send_def emits_def split: send_outcome.splits)

lemma emits_events: "list_all P es \<Longrightarrow> emits P (es, st, r)"
  by (simp add: emits_def)

lemma emits_nsfw_check:
  assumes "P (CallClassify txt)" and "P (SendEmbed (NSFWDetected b) (Some 30) None)"
  shows "emits P (nsfw_check en b txt st)"
  using assms
  by (simp add: nsfw_check_def emits_def split: outcome.splits send_outcome.splits)

lemma emits_send_result:
  assumes "P (SendFiles b files ping)"
    and "P (SendEmbed (ContentBlocked b) None (Some ping))"
    and "P (SendEmbed (SendFailed b) None (Some ping))"
  shows "emits P (send_result en b files ping meta st)"
proof (cases "channel_send en (SendFiles b files ping)")
  case (Sent i)
  with assms(1) show ?thesis by (simp add: send_result_def emits_def)
next
  case (Rejected c)
  have "emits P (and_then
            (and_then ([SendFiles b files ping], st, None)
               (send en (SendEmbed (if c = 20009 then ContentBlocked b else SendFailed b)
                           None (Some ping))))
            return_now)"
    using assms by (intro emits_and_then emits_send emits_events) simp_all
  with Rejected show ?thesis by (simp add: send_result_def)
qed

lemmas emits_intros = emits_and_then emits_nsfw_check emits_send_result emits_send emits_events

lemma well_formed_simps [simp]:
  "well_formed (SendEmbed n d a) = (d = notice_lifetime n)"
  "well_formed (CallEdit t u s) = (100000 \<le> s \<and> s \<le> 999999)"
  "well_formed (Reply k)" "well_formed (SendFiles b fs p)" "well_formed (SendText t p)"
  "well_formed (SendLong t p)" "well_formed (DetectGeneration t)" "well_formed (DetectEditing t h)"
  "well_formed (DetectWebSearch t)" "well_formed (DetectMerge t c)" "well_formed (CallClassify t)"
  "well_formed (CallMerge t us)" "well_formed (CallGenerate t i)" "well_formed (CallSearch t)"
  "well_formed (CallChat t r)" "well_formed (CallDownload t)" "well_formed (CallAnalyze t)"
  "well_formed (CallRespond t)" "well_formed ProcessCommands"
  by (simp_all add: well_formed_def lifetime_ok_def seed_in_range_def)

lemma notice_lifetime_simps [simp]:
  "notice_lifetime (NSFWDetected b) = Some 30"
  "notice_lifetime (CapabilityFailed b e) = Some 30"
  "notice_lifetime (ContentBlocked b) = None"
  "notice_lifetime (SendFailed b) = None"
  "notice_lifetime (PartialSuccess fs k) = Some 30"
  "notice_lifetime (BatchAllFailed fs k) = Some 30"
  "notice_lifetime NoImageFound = Some 30"
  "notice_lifetime NeedTwoImages = Some 30"
  "notice_lifetime InsufficientImages = Some 30"
  "notice_lifetime GenerationFailed = Some 30"
  by (simp_all add: notice_lifetime_def)

lemma randint_range: "100000 \<le> randint 100000 999999 r \<and> randint 100000 999999 r \<le> 999999"
  by (simp add: randint_def)

lemma wf_edit_loop: "list_all well_formed (fst (edit_loop en txt i us))"
proof (induction us arbitrary: i)
  case Nil
  show ?case by simp
next
  case (Cons u us)
  obtain es files failed where r: "edit_loop en txt (Suc i) us = (es, files, failed)"
    by (cases "edit_loop en txt (Suc i) us")
  with Cons[of "Suc i"] have "list_all well_formed es" by simp
  with r show ?case
    by (simp add: randint_range split: outcome.splits)
qed

lemma wf_merge_branch: "emits well_formed (merge_branch en m g imgs its st)"
  unfolding merge_branch_def
  by (auto intro!: emits_intros split: outcome.splits)

lemma wf_batch_results: "emits well_formed (batch_results en m g imgs files failed st)"
  unfolding batch_results_def
  by (auto intro!: emits_intros)

lemma wf_batch_branch: "emits well_formed (batch_branch en m g imgs its st)"
  unfolding batch_branch_def
  using wf_edit_loop[of en "clean_message_content m" 0 "image_urls m imgs"]
  by (auto intro!: emits_intros wf_batch_results split: prod.splits)


lemma wf_single_edit: "emits well_formed (single_edit en m g u st)"
  unfolding single_edit_def
  by (auto intro!: emits_intros simp: randint_range split: outcome.splits)

lemma wf_single_branch: "emits well_formed (single_branch en m g imgs its st)"
  unfolding single_branch_def
  by (auto intro!: emits_intros wf_single_edit split: option.splits)

lemma wf_corrective_branch: "emits well_formed (corrective_branch en imgs its st)"
  unfolding corrective_branch_def
  by (auto intro!: emits_intros)

lemma wf_generation_send: "emits well_formed (generation_send en m g r st)"
  unfolding generation_send_def
  by (auto intro!: emits_intros split: gen_result.splits)

lemma wf_generation_branch: "emits well_formed (generation_branch en m g its st)"
  unfolding generation_branch_def
  by (auto intro!: emits_intros wf_generation_send split: outcome.splits)

lemma wf_web_search_branch: "emits well_formed (web_search_branch en m g its st)"
  unfolding web_search_branch_def
  by (auto intro!: emits_intros split: outcome.splits)

lemma wf_analysis_reply: "emits well_formed (analysis_reply en g analysis st)"
  unfolding analysis_reply_def
  by (auto simp: emits_def split: outcome.splits option.splits send_outcome.splits)

lemma wf_analysis_branch: "emits well_formed (analysis_branch en m g imgs its st)"
  unfolding analysis_branch_def
  by (auto intro!: emits_intros wf_analysis_reply split: outcome.splits option.splits)

lemma wf_dispatch: "emits well_formed (dispatch en m g imgs st)"
  unfolding dispatch_def
  by (intro emits_and_then wf_merge_branch wf_batch_branch wf_single_branch wf_corrective_branch
        wf_generation_branch wf_web_search_branch wf_analysis_branch)
     (simp_all add: emits_def classify_events_def process_commands_def)

lemma wf_mention_command: "emits well_formed (mention_command cfg en m g st)"
  unfolding mention_command_def reply_and_return_def
  by (auto intro!: emits_intros split: option.splits prod.splits)

lemma wf_after_mention: "emits well_formed (after_mention cfg en m g st)"
  unfolding after_mention_def
  by (auto intro!: wf_dispatch emits_events simp: process_commands_def)

lemma emits_finish: "emits P a \<Longrightarrow> list_all P (fst (finish a))"
  by (cases a) (auto simp: finish_def emits_def split: option.splits)

lemma wf_on_message: "list_all well_formed (fst (on_message cfg en st m))"
  unfolding on_message_def
  by (auto intro!: emits_finish emits_and_then wf_mention_command wf_after_mention
      split: option.splits)

section \<open>Access control inside the message handler\<close>

lemma mention_command_cases:
  "mention_command cfg en m g st = ([], st, None)
   \<or> (\<exists>k st' fl. mention_command cfg en m g st = ([Reply k], st', Some fl))"
  by (auto simp: mention_command_def reply_and_return_def send_def return_now_def and_then_None
      split: option.splits send_outcome.splits prod.splits)

lemma mention_command_skip:
  "\<not> is_mention_command m \<Longrightarrow> mention_command cfg en m g st = ([], st, None)"
  by (auto simp: mention_command_def is_mention_command_def)

lemma on_message_blocked:
  "author_id m \<in> blocked_users st \<Longrightarrow> on_message cfg en st m = ([], st, Returned)"
  by (simp add: on_message_def split: option.splits)

lemma after_mention_ineligible:
  "\<not> should_respond cfg st m \<Longrightarrow>
   after_mention cfg en m g st = ([ProcessCommands], st, Some Returned)
   \<or> after_mention cfg en m g st = ([], st, Some Returned)"
  by (simp add: after_mention_def process_commands_def return_now_def)

lemma should_respond_whitelist:
  assumes "msg_guild m = Some g" and "\<not> channel_active st (channel_id m)"
    and "whitelist_active st (guild_id g)"
    and "\<not> channel_whitelisted st (guild_id g) (channel_id m)"
  shows "\<not> should_respond cfg st m"
  using assms by (simp add: should_respond_def)

text \<open>
  C1 as stated fails: in the paused guild 7, in channel 5, which the non-empty
  whitelist of the guild does not hold and which is activated, a plain message is
  classified and dispatched to image generation.
\<close>

theorem paused_guild_message_dispatched:
  "msg_guild msg0 = Some guild7 \<and> channel_id msg0 = 5 \<and> guild_id guild7 = 7
   \<and> 7 \<in> paused_servers st_paused
   \<and> whitelist_active st_paused 7 \<and> \<not> channel_whitelisted st_paused 7 5
   \<and> fst (on_message cfg0 env_gen st_paused msg0) =
       [DetectGeneration ''draw a cat'', DetectEditing ''draw a cat'' False,
        DetectWebSearch ''draw a cat'', DetectMerge ''draw a cat'' 0,
        CallClassify ''draw a cat'', CallGenerate ''draw a cat'' 2,
        SendFiles Generation [''generated_image.png''] True]"
  by (simp add: ev_model ev_ex ev_strings ev_str)

text \<open>
  C1, amended. The message handler tests the block list only, before anything else: a
  guild message of a blocked author causes no event at all and leaves the state as it
  is. The pause set is not read by the handler. The whitelist is read for the name
  trigger only: in a channel that is not activated and that the non-empty whitelist of
  its guild does not hold, no message reaches the classifier or a capability.
\<close>

theorem on_message_block_and_whitelist:
  "msg_guild m = Some g \<longrightarrow>
     (author_id m \<in> blocked_users st \<longrightarrow> on_message cfg en st m = ([], st, Returned))
   \<and> (\<not> channel_active st (channel_id m) \<longrightarrow> whitelist_active st (guild_id g) \<longrightarrow>
        \<not> channel_whitelisted st (guild_id g) (channel_id m) \<longrightarrow>
        \<not> classified_or_dispatched (fst (on_message cfg en st m)))"
proof (intro impI conjI)
  assume "author_id m \<in> blocked_users st"
  then show "on_message cfg en st m = ([], st, Returned)" by (rule on_message_blocked)
next
  assume g: "msg_guild m = Some g" and a: "\<not> channel_active st (channel_id m)"
    and w: "whitelist_active st (guild_id g)"
    and c: "\<not> channel_whitelisted st (guild_id g) (channel_id m)"
  have nr: "\<not> should_respond cfg st m" using should_respond_whitelist[OF g a w c] .
  show "\<not> classified_or_dispatched (fst (on_message cfg en st m))"
    using mention_command_cases[of cfg en m g st] after_mention_ineligible[OF nr, of en g] g
    by (auto simp: on_message_def finish_def and_then_None classified_or_dispatched_def
          is_classifier_call_def is_capability_call_def)
qed

theorem on_message_block_and_whitelist_witness:
  "msg_guild msg_named = Some guild7
   \<and> author_id msg_named \<in> blocked_users st_blocked
   \<and> on_message cfg0 env_gen st_blocked msg_named = ([], st_blocked, Returned)
   \<and> \<not> channel_active st_whitelist (channel_id msg_named)
   \<and> whitelist_active st_whitelist (guild_id guild7)
   \<and> \<not> channel_whitelisted st_whitelist (guild_id guild7) (channel_id msg_named)
   \<and> \<not> classified_or_dispatched (fst (on_message cfg0 env_gen st_whitelist msg_named))"
proof -
  have h: "msg_guild msg_named = Some guild7"
    "author_id msg_named \<in> blocked_users st_blocked"
    "\<not> channel_active st_whitelist (channel_id msg_named)"
    "whitelist_active st_whitelist (guild_id guild7)"
    "\<not> channel_whitelisted st_whitelist (guild_id guild7) (channel_id msg_named)"
    by (simp_all add: ev_ex channel_active_def is_channel_active_def whitelist_active_def
          channel_whitelisted_def ev_str)
  show ?thesis
    using h on_message_block_and_whitelist[of msg_named guild7 st_blocked cfg0 env_gen]
      on_message_block_and_whitelist[of msg_named guild7 st_whitelist cfg0 env_gen]
    by blast
qed

section \<open>Direct messages\<close>

text \<open>
  Every message without a guild leaves the handler at once (line 399), and the command
  check allows every context without a guild, sends nothing and does not reload.
\<close>

lemma direct_message_ignored:
  "(ctx_guild ctx = None \<longrightarrow> global_command_check st ctx = (CheckTrue, [], st))
   \<and> (msg_guild m = None \<longrightarrow> on_message cfg en st' m = ([], st', Returned))"
  by (simp add: global_command_check_def on_message_def)

text \<open>
  C4, at a direct message that names the bot. The command check allows its context and
  the eligibility test of lines 584 to 599 accepts it ("DM - always respond to bot name
  keyword", line 598), but the handler has returned at line 399 before: nothing is
  classified, dispatched or sent, and the branch written for direct messages is never
  reached.
\<close>

theorem direct_message_not_dispatched:
  "msg_guild msg_dm = None
   \<and> contains (lower (content msg_dm)) (BOT_NAME cfg0)
   \<and> should_respond cfg0 st_idle msg_dm
   \<and> fst (global_command_check st_idle ctx_dm) = CheckTrue
   \<and> on_message cfg0 env_gen st_idle msg_dm = ([], st_idle, Returned)"
  by (simp add: ev_model global_command_check_def ev_ex ev_strings ev_str)

section \<open>Messages that are not eligible\<close>

text \<open>
  C9 as stated fails: "draw a cat" without attachment, in a channel that is not
  activated, without the bot name and without whitelist, is no command; the handler
  returns at line 603 and \<open>bot.process_commands\<close> is not called.
\<close>

theorem ineligible_message_not_processed:
  "attachments msg0 = [] \<and> msg_guild msg0 = Some guild7
   \<and> \<not> is_mention_command msg0 \<and> \<not> is_command_text cfg0 st_idle guild7 msg0
   \<and> \<not> channel_active st_idle (channel_id msg0)
   \<and> \<not> contains (lower (content msg0)) (BOT_NAME cfg0)
   \<and> whitelisted_channels st_idle (str_int (guild_id guild7)) = None
   \<and> ProcessCommands \<notin> set (fst (on_message cfg0 env_gen st_idle msg0))"
  by (simp add: ev_model is_mention_command_def ev_ex ev_strings ev_str)

text \<open>
  C9, amended. A guild message that is no mention command and no prefixed or slash
  command, in a channel that is not activated and without the bot name in its text,
  is not dispatched: the handler returns without any event, command processing
  included, and leaves the state as it is.
\<close>

theorem ineligible_message_returns:
  assumes "msg_guild m = Some g" and "\<not> is_mention_command m"
    and "\<not> is_command_text cfg st g m"
    and "\<not> channel_active st (channel_id m)"
    and "\<not> contains (lower (content m)) (BOT_NAME cfg)"
  shows "on_message cfg en st m = ([], st, Returned)"
  using assms
  by (simp add: on_message_def mention_command_skip and_then_None after_mention_def
        should_respond_def return_now_def finish_def)

theorem ineligible_message_returns_witness:
  "msg_guild msg0 = Some guild7 \<and> \<not> is_mention_command msg0
   \<and> \<not> is_command_text cfg0 st_whitelist guild7 msg0
   \<and> \<not> channel_active st_whitelist (channel_id msg0)
   \<and> \<not> contains (lower (content msg0)) (BOT_NAME cfg0)
   \<and> on_message cfg0 env_gen st_whitelist msg0 = ([], st_whitelist, Returned)"
proof -
  have h: "msg_guild msg0 = Some guild7" "\<not> is_mention_command msg0"
    "\<not> is_command_text cfg0 st_whitelist guild7 msg0"
    "\<not> channel_active st_whitelist (channel_id msg0)"
    "\<not> contains (lower (content msg0)) (BOT_NAME cfg0)"
    by (simp_all add: is_mention_command_def is_command_text_def current_prefix_def
          channel_active_def is_channel_active_def ev_ex ev_strings ev_str)
  show ?thesis
    using h ineligible_message_returns[OF h, of env_gen] by blast
qed

section \<open>Lifetimes of the dispatcher's notices\<close>

text \<open>
  C5 as stated fails both ways. When Discord rejects the edited image with error
  20009, the "Content Blocked" notice is sent without \<open>delete_after\<close>; and the summary
  of a partly failed batch is sent with \<open>delete_after=30\<close>.
\<close>

theorem failure_notice_lifetimes_counterexample:
  "fst (on_message cfg0 env_edit_rejected st_paused (msg0\<lparr>attachments := [photo]\<rparr>)) =
     [DetectGeneration ''draw a cat'', DetectEditing ''draw a cat'' True,
      DetectWebSearch ''draw a cat'', DetectMerge ''draw a cat'' 1,
      CallClassify ''draw a cat'', CallEdit ''draw a cat'' ''https://cdn/photo.png'' 256789,
      SendFiles SingleEdit [''edited_image.png''] True,
      SendEmbed (ContentBlocked SingleEdit) None (Some True)]
   \<and> fst (on_message cfg0 env_edit_partial st_paused (msg0\<lparr>attachments := [photo, photo2]\<rparr>)) =
     [DetectGeneration ''draw a cat'', DetectEditing ''draw a cat'' True,
      DetectWebSearch ''draw a cat'', DetectMerge ''draw a cat'' 2,
      CallClassify ''draw a cat'', CallEdit ''draw a cat'' ''https://cdn/photo.png'' 256789,
      CallEdit ''draw a cat'' ''https://cdn/second.jpeg'' 256790,
      SendFiles BatchEdit [''edited_image_1.png''] True,
      SendEmbed (PartialSuccess [''Image 2: timeout''] 0) (Some 30) None]"
  by (simp add: ev_model ev_ex ev_strings ev_str)

text \<open>
  C5, amended. Every notice of the dispatcher has the lifetime of its kind: the NSFW
  notice, the notices of a failed capability (merge, edit, whole batch, generation),
  the three corrective notices and the summary of a partly failed batch are deleted
  after 30 seconds; the two notices that follow a rejected send ("Content Blocked" and
  "failed to send") have no lifetime.
\<close>

theorem dispatcher_notice_lifetimes:
  "list_all lifetime_ok (fst (on_message cfg en st m))"
  using wf_on_message[of cfg en st m] by (auto simp: list_all_iff well_formed_def)

section \<open>Editing without an image\<close>

lemma on_message_reaches_dispatch:
  assumes "\<not> author_bot m" and "msg_guild m = Some g" and "author_id m \<notin> blocked_users st"
    and "\<not> is_mention_command m" and "\<not> is_command_text cfg st g m"
    and "\<not> ctx_valid en" and "should_respond cfg st m"
  shows "on_message cfg en st m = finish (dispatch en m g (collect_images en m) st)"
  using assms
  by (simp add: on_message_def mention_command_skip and_then_None after_mention_def)

lemma has_images_count: "has_images_in_message atts = (0 < count_images_in_message atts)"
  by (induction atts) (auto simp: has_images_in_message_def count_images_in_message_def)

lemma total_zero_no_images:
  "total_image_count (collect_images en m) = 0 \<Longrightarrow> \<not> has_any_images (collect_images en m)"
  by (auto simp: collect_images_def has_any_images_def has_images_count Let_def
      split: option.splits if_splits)

lemma send_events: "fst (send en e st) = [e]"
  by (simp add: send_def split: send_outcome.splits)

lemma and_then_send_return: "fst (and_then (send en e st) return_now) = [e]"
  by (simp add: send_def and_then_None return_now_def split: send_outcome.splits)

lemma dispatch_no_image:
  assumes "wants_editing (classify en m imgs)" and "total_image_count imgs = 0"
    and "\<not> has_any_images imgs"
  shows "fst (dispatch en m g imgs st) =
           classify_events m imgs @ [SendEmbed NoImageFound (Some 30) None]"
proof -
  have m: "merge_branch en m g imgs (classify en m imgs) st = ([], st, None)"
    using assms by (simp add: merge_branch_def)
  have b: "batch_branch en m g imgs (classify en m imgs) st = ([], st, None)"
    using assms by (simp add: batch_branch_def)
  have s: "single_branch en m g imgs (classify en m imgs) st = ([], st, None)"
    using assms by (simp add: single_branch_def)
  have c: "corrective_branch en imgs (classify en m imgs) st =
             and_then (send en (SendEmbed NoImageFound (Some 30) None) st) return_now"
    using assms by (simp add: corrective_branch_def)
  show ?thesis
    unfolding dispatch_def
    by (cases "channel_send en (SendEmbed NoImageFound (Some 30) None)")
       (simp_all add: and_then_None m b s c send_def return_now_def)
qed

text \<open>
  C8. A message that reaches the dispatcher (not from a bot, in a guild, author not
  blocked, no mention command, no prefixed or slash command, eligible to trigger),
  that the classifier flags as wanting editing and that has no image at all, current
  or referenced, gets the "No Image Found" notice with a lifetime of 30 seconds, and
  the run calls no capability: its events are the four classifier calls and the notice.
\<close>

theorem no_image_notice_without_capability_call:
  assumes "\<not> author_bot m" and "msg_guild m = Some g" and "author_id m \<notin> blocked_users st"
    and "\<not> is_mention_command m" and "\<not> is_command_text cfg st g m"
    and "\<not> ctx_valid en" and "should_respond cfg st m"
    and "wants_editing (classify en m (collect_images en m))"
    and "total_image_count (collect_images en m) = 0"
  shows "fst (on_message cfg en st m) =
           classify_events m (collect_images en m) @ [SendEmbed NoImageFound (Some 30) None]
       \<and> \<not> list_ex is_capability_call (fst (on_message cfg en st m))"
proof -
  have d: "fst (dispatch en m g (collect_images en m) st) =
           classify_events m (collect_images en m) @ [SendEmbed NoImageFound (Some 30) None]"
    using dispatch_no_image[OF assms(8) assms(9) total_zero_no_images[OF assms(9)]] .
  have f: "\<And>a. fst (finish a) = fst a"
    by (auto simp: finish_def split: prod.splits option.splits)
  have "fst (on_message cfg en st m) =
           classify_events m (collect_images en m) @ [SendEmbed NoImageFound (Some 30) None]"
    using on_message_reaches_dispatch[OF assms(1-7)] d f by simp
  then show ?thesis
    by (simp add: classify_events_def is_capability_call_def)
qed

theorem no_image_notice_without_capability_call_witness:
  "\<not> author_bot msg_edit \<and> msg_guild msg_edit = Some guild7
   \<and> author_id msg_edit \<notin> blocked_users st_idle \<and> \<not> is_mention_command msg_edit
   \<and> \<not> is_command_text cfg0 st_idle guild7 msg_edit \<and> \<not> ctx_valid env_edit
   \<and> should_respond cfg0 st_idle msg_edit
   \<and> wants_editing (classify env_edit msg_edit (collect_images env_edit msg_edit))
   \<and> total_image_count (collect_images env_edit msg_edit) = 0
   \<and> fst (on_message cfg0 env_edit st_idle msg_edit) =
       [DetectGeneration ''gacha edit to make it night'',
        DetectEditing ''gacha edit to make it night'' False,
        DetectWebSearch ''gacha edit to make it night'',
        DetectMerge ''gacha edit to make it night'' 0,
        SendEmbed NoImageFound (Some 30) None]"
proof -
  have h: "\<not> author_bot msg_edit" "msg_guild msg_edit = Some guild7"
    "author_id msg_edit \<notin> blocked_users st_idle" "\<not> is_mention_command msg_edit"
    "\<not> is_command_text cfg0 st_idle guild7 msg_edit" "\<not> ctx_valid env_edit"
    "should_respond cfg0 st_idle msg_edit"
    "wants_editing (classify env_edit msg_edit (collect_images env_edit msg_edit))"
    "total_image_count (collect_images env_edit msg_edit) = 0"
    by (simp_all add: is_mention_command_def is_command_text_def current_prefix_def
          should_respond_def channel_active_def is_channel_active_def whitelist_active_def
          classify_def collect_images_def has_images_in_message_def
          count_images_in_message_def ev_ex ev_strings ev_str)
  have e: "classify_events msg_edit (collect_images env_edit msg_edit) =
       [DetectGeneration ''gacha edit to make it night'',
        DetectEditing ''gacha edit to make it night'' False,
        DetectWebSearch ''gacha edit to make it night'',
        DetectMerge ''gacha edit to make it night'' 0]"
    by (simp add: classify_events_def clean_message_content_def has_any_images_def
          collect_images_def has_images_in_message_def
          count_images_in_message_def ev_ex ev_strings)
  show ?thesis
    using h no_image_notice_without_capability_call[OF h] e by simp
qed

section \<open>Images foreclose generation\<close>

lemma not_generation_simps [simp]:
  "not_generation (SendEmbed n d a) =
     (n \<noteq> NSFWDetected Generation \<and> n \<noteq> GenerationFailed \<and> n \<noteq> ContentBlocked Generation
      \<and> n \<noteq> SendFailed Generation)"
  "not_generation (SendFiles b fs p) = (b \<noteq> Generation)"
  "not_generation (CallGenerate t i) = False"
  "not_generation (CallEdit t u s)"
  "not_generation (Reply k)" "not_generation (SendText t p)"
  "not_generation (SendLong t p)" "not_generation (DetectGeneration t)"
  "not_generation (DetectEditing t h)" "not_generation (DetectWebSearch t)"
  "not_generation (DetectMerge t c)" "not_generation (CallClassify t)"
  "not_generation (CallMerge t us)" "not_generation (CallSearch t)"
  "not_generation (CallChat t r)" "not_generation (CallDownload t)"
  "not_generation (CallAnalyze t)" "not_generation (CallRespond t)"
  "not_generation ProcessCommands"
  by (simp_all add: not_generation_def of_generation_branch_def)

lemma ng_edit_loop: "list_all not_generation (fst (edit_loop en txt i us))"
proof (induction us arbitrary: i)
  case Nil
  show ?case by simp
next
  case (Cons u us)
  obtain es files failed where r: "edit_loop en txt (Suc i) us = (es, files, failed)"
    by (cases "edit_loop en txt (Suc i) us")
  with Cons[of "Suc i"] have "list_all not_generation es" by simp
  with r show ?case
    by (simp split: outcome.splits)
qed

lemma ng_merge_branch: "emits not_generation (merge_branch en m g imgs its st)"
  unfolding merge_branch_def
  by (auto intro!: emits_intros split: outcome.splits)

lemma ng_batch_results: "emits not_generation (batch_results en m g imgs files failed st)"
  unfolding batch_results_def
  by (auto intro!: emits_intros)

lemma ng_batch_branch: "emits not_generation (batch_branch en m g imgs its st)"
  unfolding batch_branch_def
  using ng_edit_loop[of en "clean_message_content m" 0 "image_urls m imgs"]
  by (auto intro!: emits_intros ng_batch_results split: prod.splits)

lemma ng_single_edit: "emits not_generation (single_edit en m g u st)"
  unfolding single_edit_def
  by (auto intro!: emits_intros split: outcome.splits)

lemma ng_single_branch: "emits not_generation (single_branch en m g imgs its st)"
  unfolding single_branch_def
  by (auto intro!: emits_intros ng_single_edit split: option.splits)

lemma ng_corrective_branch: "emits not_generation (corrective_branch en imgs its st)"
  unfolding corrective_branch_def
  by (auto intro!: emits_intros)

lemma ng_generation_branch:
  "\<not> wants_generation its \<Longrightarrow> generation_branch en m g its st = ([], st, None)"
  by (simp add: generation_branch_def)

lemma ng_web_search_branch: "emits not_generation (web_search_branch en m g its st)"
  unfolding web_search_branch_def
  by (auto intro!: emits_intros split: outcome.splits)

lemma ng_analysis_reply: "emits not_generation (analysis_reply en g analysis st)"
  unfolding analysis_reply_def
  by (auto simp: emits_def split: outcome.splits option.splits send_outcome.splits)

lemma ng_analysis_branch: "emits not_generation (analysis_branch en m g imgs its st)"
  unfolding analysis_branch_def
  by (auto intro!: emits_intros ng_analysis_reply split: outcome.splits option.splits)

lemma ng_dispatch:
  assumes "\<not> wants_generation (classify en m imgs)"
  shows "emits not_generation (dispatch en m g imgs st)"
  unfolding dispatch_def
  by (intro emits_and_then ng_merge_branch ng_batch_branch ng_single_branch ng_corrective_branch
        ng_web_search_branch ng_analysis_branch)
     (simp_all add: ng_generation_branch[OF assms] emits_def classify_events_def
        process_commands_def)

lemma ng_mention_command: "emits not_generation (mention_command cfg en m g st)"
  unfolding mention_command_def reply_and_return_def
  by (auto intro!: emits_intros split: option.splits prod.splits)

lemma ng_after_mention:
  assumes "\<not> wants_generation (classify en m (collect_images en m))"
  shows "emits not_generation (after_mention cfg en m g st)"
  unfolding after_mention_def
  by (auto intro!: ng_dispatch[OF assms] emits_events simp: process_commands_def)

lemma ng_on_message:
  assumes "\<not> wants_generation (classify en m (collect_images en m))"
  shows "list_all not_generation (fst (on_message cfg en st m))"
  unfolding on_message_def
  by (auto intro!: emits_finish emits_and_then ng_mention_command ng_after_mention[OF assms]
      split: option.splits)

lemma images_present:
  assumes "list_ex is_image (attachments m)
     \<or> (\<exists>rid ratts. reference m = Some rid \<and> fetch_message en rid = Some ratts
          \<and> list_ex is_image ratts)"
  shows "has_any_images (collect_images en m)"
  using assms
  by (auto simp: has_any_images_def collect_images_def has_images_in_message_def Let_def
      split: option.splits)

text \<open>
  C6. When the message has an image attachment of its own, or the message it replies
  to could be fetched and has one, the flag \<open>wants_generation\<close> is false whatever the
  text and whatever the classifier finds in it, and the run does nothing of the
  generation branch: no generation call, no generated file, no notice of that branch.
\<close>

theorem images_foreclose_generation:
  assumes "list_ex is_image (attachments m)
     \<or> (\<exists>rid ratts. reference m = Some rid \<and> fetch_message en rid = Some ratts
          \<and> list_ex is_image ratts)"
  shows "\<not> wants_generation (classify en m (collect_images en m))
       \<and> \<not> list_ex of_generation_branch (fst (on_message cfg en st m))"
proof -
  have w: "\<not> wants_generation (classify en m (collect_images en m))"
    using images_present[OF assms] by (simp add: classify_def)
  have "list_all not_generation (fst (on_message cfg en st m))"
    using ng_on_message[OF w] .
  with w show ?thesis
    by (auto simp: list_all_iff list_ex_iff not_generation_def)
qed

theorem images_foreclose_generation_witness:
  "list_ex is_image (attachments msg_gen_photo)
   \<and> detect_image_generation_intent env_gen (clean_message_content msg_gen_photo)
   \<and> \<not> wants_generation (classify env_gen msg_gen_photo (collect_images env_gen msg_gen_photo))
   \<and> \<not> list_ex of_generation_branch (fst (on_message cfg0 env_gen st_paused msg_gen_photo))
   \<and> attachments msg_reply = [] \<and> reference msg_reply = Some 55
   \<and> fetch_message env_gen_ref 55 = Some [photo2] \<and> list_ex is_image [photo2]
   \<and> \<not> wants_generation (classify env_gen_ref msg_reply (collect_images env_gen_ref msg_reply))
   \<and> \<not> list_ex of_generation_branch (fst (on_message cfg0 env_gen_ref st_paused msg_reply))"
proof -
  have a: "list_ex is_image (attachments msg_gen_photo)"
    "detect_image_generation_intent env_gen (clean_message_content msg_gen_photo)"
    "attachments msg_reply = []" "reference msg_reply = Some 55"
    "fetch_message env_gen_ref 55 = Some [photo2]" "list_ex is_image [photo2]"
    by (simp_all add: is_image_def image_exts_def ev_ex ev_strings)
  have h1: "list_ex is_image (attachments msg_gen_photo)
     \<or> (\<exists>rid ratts. reference msg_gen_photo = Some rid
          \<and> fetch_message env_gen rid = Some ratts \<and> list_ex is_image ratts)"
    using a(1) by blast
  have h2: "list_ex is_image (attachments msg_reply)
     \<or> (\<exists>rid ratts. reference msg_reply = Some rid
          \<and> fetch_message env_gen_ref rid = Some ratts \<and> list_ex is_image ratts)"
    using a(4-6) by blast
  show ?thesis
    using a images_foreclose_generation[OF h1, of cfg0 st_paused]
      images_foreclose_generation[OF h2, of cfg0 st_paused]
    by blast
qed

section \<open>Seeds of the edit calls\<close>

lemma seed_kept_same: "image_metadata st' = image_metadata st \<Longrightarrow> seed_kept st (es, st', r)"
  by (simp add: seed_kept_def)

lemma seed_kept_and_then:
  assumes "seed_kept st a" and "\<And>st1. seed_kept st1 (f st1)"
  shows "seed_kept st (and_then a f)"
proof (cases a)
  case (fields es st1 r)
  show ?thesis
  proof (cases r)
    case None
    obtain es' st' r' where f: "f st1 = (es', st', r')" by (cases "f st1")
    have a1: "seed_kept st (es, st1, None)" using assms(1) fields None by simp
    have a2: "seed_kept st1 (es', st', r')" using assms(2)[of st1] f by simp
    have "seed_kept st (es @ es', st', r')"
      unfolding seed_kept_def
    proof (intro allI impI)
      fix k p s u
      assume h: "image_metadata (fst (snd (es @ es', st', r'))) k = Some (Img2ImgMeta p s u)"
      then have "image_metadata st1 k = Some (Img2ImgMeta p s u) \<or> CallEdit p u s \<in> set es'"
        using a2 by (simp add: seed_kept_def)
      then show "image_metadata st k = Some (Img2ImgMeta p s u)
          \<or> CallEdit p u s \<in> set (fst (es @ es', st', r'))"
        using a1 by (auto simp: seed_kept_def)
    qed
    with fields None f show ?thesis by (simp add: and_then_None)
  next
    case (Some fl)
    with fields assms(1) show ?thesis by simp
  qed
qed

lemma seed_kept_return_now [simp]: "seed_kept st (return_now st)"
  by (simp add: return_now_def seed_kept_def)

lemma seed_kept_send [simp]: "seed_kept st (send en e st)"
  by (simp add: send_def seed_kept_def split: send_outcome.splits)

lemma seed_kept_nsfw_check [simp]: "seed_kept st (nsfw_check en b txt st)"
  by (simp add: nsfw_check_def seed_kept_def split: outcome.splits send_outcome.splits)

lemma seed_kept_send_result:
  assumes "\<And>p s u. meta \<noteq> Img2ImgMeta p s u"
  shows "seed_kept st (send_result en b files ping meta st)"
  using assms
  by (auto simp: send_result_def seed_kept_def send_def return_now_def and_then_None
      split: send_outcome.splits)

lemmas seed_kept_intros = seed_kept_and_then seed_kept_send_result seed_kept_same

lemma sk_merge_branch: "seed_kept st (merge_branch en m g imgs its st)"
  unfolding merge_branch_def
  by (auto intro!: seed_kept_intros split: outcome.splits)

lemma sk_batch_results: "seed_kept st (batch_results en m g imgs files failed st)"
  unfolding batch_results_def
  by (auto intro!: seed_kept_intros)

lemma sk_batch_branch: "seed_kept st (batch_branch en m g imgs its st)"
  unfolding batch_branch_def
  by (auto intro!: seed_kept_intros sk_batch_results split: prod.splits)

lemma sk_single_edit: "seed_kept st (single_edit en m g u st)"
  by (auto simp: single_edit_def seed_kept_def send_result_def send_def return_now_def
        and_then_None split: outcome.splits send_outcome.splits if_splits)

lemma sk_single_branch: "seed_kept st (single_branch en m g imgs its st)"
  unfolding single_branch_def
  by (auto intro!: seed_kept_intros sk_single_edit split: option.splits)

lemma sk_corrective_branch: "seed_kept st (corrective_branch en imgs its st)"
  unfolding corrective_branch_def
  by (auto intro!: seed_kept_intros)

lemma sk_generation_send: "seed_kept st (generation_send en m g r st)"
  unfolding generation_send_def
  by (auto intro!: seed_kept_intros split: gen_result.splits)

lemma sk_generation_branch: "seed_kept st (generation_branch en m g its st)"
  unfolding generation_branch_def
  by (auto intro!: seed_kept_intros sk_generation_send split: outcome.splits)

lemma sk_web_search_branch: "seed_kept st (web_search_branch en m g its st)"
  unfolding web_search_branch_def
  by (auto intro!: seed_kept_intros split: outcome.splits)

lemma sk_analysis_reply: "seed_kept st (analysis_reply en g analysis st)"
  unfolding analysis_reply_def
  by (auto simp: seed_kept_def split: outcome.splits option.splits send_outcome.splits)

lemma sk_analysis_branch: "seed_kept st (analysis_branch en m g imgs its st)"
  unfolding analysis_branch_def
  by (auto intro!: seed_kept_intros sk_analysis_reply split: outcome.splits option.splits)

lemma sk_dispatch: "seed_kept st (dispatch en m g imgs st)"
  unfolding dispatch_def
  by (intro seed_kept_and_then sk_merge_branch sk_batch_branch sk_single_branch
        sk_corrective_branch sk_generation_branch sk_web_search_branch sk_analysis_branch)
     (simp_all add: seed_kept_def process_commands_def)

lemma sk_mention_command: "seed_kept st (mention_command cfg en m g st)"
  by (auto simp: mention_command_def reply_and_return_def send_def return_now_def and_then_None
        seed_kept_def split: option.splits send_outcome.splits prod.splits)

lemma sk_after_mention: "seed_kept st (after_mention cfg en m g st)"
  unfolding after_mention_def
  by (auto intro!: sk_dispatch seed_kept_same simp: process_commands_def)

lemma sk_on_message:
  "image_metadata (fst (snd (on_message cfg en st m))) k = Some (Img2ImgMeta p s u) \<Longrightarrow>
   image_metadata st k = Some (Img2ImgMeta p s u)
   \<or> CallEdit p u s \<in> set (fst (on_message cfg en st m))"
proof -
  assume h: "image_metadata (fst (snd (on_message cfg en st m))) k = Some (Img2ImgMeta p s u)"
  show ?thesis
  proof (cases "author_bot m \<or> msg_guild m = None \<or> author_id m \<in> blocked_users st")
    case True
    then have "on_message cfg en st m = ([], st, Returned)"
      by (cases "msg_guild m") (auto simp: on_message_def)
    with h show ?thesis by simp
  next
    case False
    then obtain g where g: "msg_guild m = Some g" by auto
    let ?a = "and_then (mention_command cfg en m g st) (after_mention cfg en m g)"
    have sk: "seed_kept st ?a"
      by (intro seed_kept_and_then sk_mention_command sk_after_mention)
    have o: "on_message cfg en st m = finish ?a"
      using False g by (simp add: on_message_def)
    have f: "fst (finish ?a) = fst ?a" "fst (snd (finish ?a)) = fst (snd ?a)"
      by (auto simp: finish_def split: prod.splits option.splits)
    show ?thesis
      using sk h unfolding o f seed_kept_def by blast
  qed
qed

lemma edit_loop_calls:
  "fst (edit_loop en t i us) =
     map (\<lambda>(j, u). CallEdit t u (randint 100000 999999 (rand_raw en j)))
       (zip [i..<i + length us] us)"
proof (induction us arbitrary: i)
  case Nil
  show ?case by simp
next
  case (Cons u us)
  obtain es files failed where r: "edit_loop en t (Suc i) us = (es, files, failed)"
    by (cases "edit_loop en t (Suc i) us")
  with Cons[of "Suc i"] have es: "es = map (\<lambda>(j, u). CallEdit t u (randint 100000 999999 (rand_raw en j)))
       (zip [Suc i..<Suc i + length us] us)" by simp
  have "[i..<i + length (u # us)] = i # [Suc i..<i + length (u # us)]"
    by (rule upt_conv_Cons) simp
  then have z: "[i..<i + length (u # us)] = i # [Suc i..<Suc i + length us]"
    by simp
  show ?case
    unfolding z using r es by (simp split: outcome.splits)
qed

lemma is_edit_call_simps [simp]:
  "is_edit_call (CallEdit t u s)"
  "\<not> is_edit_call (SendEmbed n d a)" "\<not> is_edit_call (SendFiles b fs p)"
  "\<not> is_edit_call (CallGenerate t i)"
  "\<not> is_edit_call (Reply k)" "\<not> is_edit_call (SendText t p)"
  "\<not> is_edit_call (SendLong t p)" "\<not> is_edit_call (DetectGeneration t)"
  "\<not> is_edit_call (DetectEditing t h)" "\<not> is_edit_call (DetectWebSearch t)"
  "\<not> is_edit_call (DetectMerge t c)" "\<not> is_edit_call (CallClassify t)"
  "\<not> is_edit_call (CallMerge t us)" "\<not> is_edit_call (CallSearch t)"
  "\<not> is_edit_call (CallChat t r)" "\<not> is_edit_call (CallDownload t)"
  "\<not> is_edit_call (CallAnalyze t)" "\<not> is_edit_call (CallRespond t)"
  "\<not> is_edit_call ProcessCommands"
  by (simp_all add: is_edit_call_def)

lemma no_edit_call_simps [simp]:
  "no_edit_call (CallEdit t u s) = False"
  "no_edit_call (SendEmbed n d a)" "no_edit_call (SendFiles b fs p)"
  "no_edit_call (CallGenerate t i)"
  "no_edit_call (Reply k)" "no_edit_call (SendText t p)"
  "no_edit_call (SendLong t p)" "no_edit_call (DetectGeneration t)"
  "no_edit_call (DetectEditing t h)" "no_edit_call (DetectWebSearch t)"
  "no_edit_call (DetectMerge t c)" "no_edit_call (CallClassify t)"
  "no_edit_call (CallMerge t us)" "no_edit_call (CallSearch t)"
  "no_edit_call (CallChat t r)" "no_edit_call (CallDownload t)"
  "no_edit_call (CallAnalyze t)" "no_edit_call (CallRespond t)"
  "no_edit_call ProcessCommands"
  by (simp_all add: no_edit_call_def)

lemma emits_no_edit: "emits no_edit_call a \<Longrightarrow> edit_calls (fst a) = []"
  by (auto simp: emits_def edit_calls_def list_all_iff no_edit_call_def filter_empty_conv)

lemma edit_calls_append [simp]: "edit_calls (xs @ ys) = edit_calls xs @ edit_calls ys"
  by (simp add: edit_calls_def)

lemma edit_calls_Nil [simp]: "edit_calls [] = []"
  by (simp add: edit_calls_def)

lemma edit_calls_Cons [simp]:
  "edit_calls (e # es) = (if is_edit_call e then e # edit_calls es else edit_calls es)"
  by (simp add: edit_calls_def)

lemma ne_merge_branch: "emits no_edit_call (merge_branch en m g imgs its st)"
  unfolding merge_branch_def
  by (auto intro!: emits_intros split: outcome.splits)

lemma ne_batch_results: "emits no_edit_call (batch_results en m g imgs files failed st)"
  unfolding batch_results_def
  by (auto intro!: emits_intros)

lemma ne_corrective_branch: "emits no_edit_call (corrective_branch en imgs its st)"
  unfolding corrective_branch_def
  by (auto intro!: emits_intros)

lemma ne_generation_send: "emits no_edit_call (generation_send en m g r st)"
  unfolding generation_send_def
  by (auto intro!: emits_intros split: gen_result.splits)

lemma ne_generation_branch: "emits no_edit_call (generation_branch en m g its st)"
  unfolding generation_branch_def
  by (auto intro!: emits_intros ne_generation_send split: outcome.splits)

lemma ne_web_search_branch: "emits no_edit_call (web_search_branch en m g its st)"
  unfolding web_search_branch_def
  by (auto intro!: emits_intros split: outcome.splits)

lemma ne_analysis_reply: "emits no_edit_call (analysis_reply en g analysis st)"
  unfolding analysis_reply_def
  by (auto simp: emits_def split: outcome.splits option.splits send_outcome.splits)

lemma ne_analysis_branch: "emits no_edit_call (analysis_branch en m g imgs its st)"
  unfolding analysis_branch_def
  by (auto intro!: emits_intros ne_analysis_reply split: outcome.splits option.splits)

lemma ne_mention_command: "emits no_edit_call (mention_command cfg en m g st)"
  unfolding mention_command_def reply_and_return_def
  by (auto intro!: emits_intros split: option.splits prod.splits)

lemma ne_after_single:
  "emits no_edit_call
     (and_then (corrective_branch en imgs its st) (\<lambda>st.
      and_then (generation_branch en m g its st) (\<lambda>st.
      and_then (web_search_branch en m g its st) (\<lambda>st.
      and_then (analysis_branch en m g imgs its st) process_commands))))"
  by (intro emits_and_then ne_corrective_branch ne_generation_branch ne_web_search_branch
        ne_analysis_branch)
     (simp add: emits_def process_commands_def)

lemma fresh_empty: "edit_calls es = [] \<Longrightarrow> fresh en m imgs es"
  unfolding fresh_def by (rule exI[of _ "[]"]) (simp add: fresh_calls_def)

lemma fresh_and_then_no_edit:
  assumes "emits no_edit_call a" and "\<And>st. fresh en m imgs (fst (f st))"
  shows "fresh en m imgs (fst (and_then a f))"
proof (cases a)
  case (fields es st r)
  have e: "edit_calls es = []" using emits_no_edit[OF assms(1)] fields by simp
  show ?thesis
  proof (cases r)
    case None
    obtain es' st' r' where f: "f st = (es', st', r')" by (cases "f st")
    have "fresh en m imgs es'" using assms(2)[of st] f by simp
    then have "fresh en m imgs (es @ es')" using e by (simp add: fresh_def)
    with fields None f show ?thesis by (simp add: and_then_None)
  next
    case (Some fl)
    with fields e show ?thesis by (simp add: fresh_empty)
  qed
qed

lemma fresh_and_then_final:
  assumes "fresh en m imgs (fst a)" and "fst a = [] \<or> snd (snd a) \<noteq> None"
    and "\<And>st. fresh en m imgs (fst (f st))"
  shows "fresh en m imgs (fst (and_then a f))"
proof (cases a)
  case (fields es st r)
  show ?thesis
  proof (cases r)
    case None
    obtain es' st' r' where f: "f st = (es', st', r')" by (cases "f st")
    have "es = []" using assms(2) fields None by simp
    moreover have "fresh en m imgs es'" using assms(3)[of st] f by simp
    ultimately show ?thesis using fields None f by (simp add: and_then_None)
  next
    case (Some fl)
    with fields assms(1) show ?thesis by simp
  qed
qed

lemma fresh_calls_are_edit_calls [simp]: "edit_calls (fresh_calls en m us) = fresh_calls en m us"
  by (simp add: edit_calls_def fresh_calls_def filter_map o_def split_def)

lemma edit_loop_fresh: "fst (edit_loop en (clean_message_content m) 0 us) = fresh_calls en m us"
  using edit_loop_calls[of en "clean_message_content m" 0 us] by (simp add: fresh_calls_def)

lemma nsfw_check_shape: "\<exists>es r. nsfw_check en b t st = (es, st, r) \<and> edit_calls es = []"
  by (auto simp: nsfw_check_def edit_calls_def split: outcome.splits send_outcome.splits)

lemma nsfw_check_safe:
  "classify_prompt en t \<noteq> Ok ''NSFW'' \<Longrightarrow> nsfw_check en b t st = ([CallClassify t], st, None)"
  by (simp add: nsfw_check_def split: outcome.splits)

lemma send_result_shape:
  "(\<exists>i. channel_send en (SendFiles b files ping) = Sent i
        \<and> send_result en b files ping meta st =
            ([SendFiles b files ping],
             st\<lparr>image_metadata := (image_metadata st)(str_int i \<mapsto> meta)\<rparr>, None))
   \<or> (\<exists>es fl. send_result en b files ping meta st = (es, st, Some fl)
          \<and> edit_calls es = [])"
  by (cases "channel_send en (SendFiles b files ping)")
     (auto simp: send_result_def send_def return_now_def and_then_None edit_calls_def
        split: send_outcome.splits)

lemma send_return_final: "\<exists>es fl. and_then (send en e st) return_now = (es, st, Some fl)"
  by (simp add: send_def return_now_def and_then_None split: send_outcome.splits)

lemma batch_results_final:
  "\<exists>es st' fl. batch_results en m g imgs files failed st = (es, st', Some fl)
      \<and> edit_calls es = []"
proof -
  have t: "snd (snd (batch_results en m g imgs files failed st)) \<noteq> None"
    using send_return_final[of en _ st]
    by (auto simp: batch_results_def send_result_def send_def return_now_def and_then_None
        split: send_outcome.splits)
  have e: "edit_calls (fst (batch_results en m g imgs files failed st)) = []"
    by (rule emits_no_edit[OF ne_batch_results])
  obtain es st' r where r: "batch_results en m g imgs files failed st = (es, st', r)"
    by (cases "batch_results en m g imgs files failed st")
  with t e show ?thesis by auto
qed

lemma batch_branch_shape:
  "batch_branch en m g imgs its st = ([], st, None)
   \<or> (\<exists>es st' fl. batch_branch en m g imgs its st = (es, st', Some fl)
        \<and> (edit_calls es = [] \<or> edit_calls es = fresh_calls en m (image_urls m imgs)))"
proof (cases "wants_editing its \<and> 2 \<le> total_image_count imgs \<and> \<not> wants_merge its
              \<and> 2 \<le> length (image_urls m imgs)")
  case False
  then show ?thesis by (auto simp: batch_branch_def)
next
  case True
  obtain es0 r0 where n: "nsfw_check en BatchEdit (clean_message_content m) st = (es0, st, r0)"
    and n0: "edit_calls es0 = []"
    using nsfw_check_shape by blast
  obtain es1 files failed where
    l: "edit_loop en (clean_message_content m) 0 (image_urls m imgs) = (es1, files, failed)"
    by (cases "edit_loop en (clean_message_content m) 0 (image_urls m imgs)")
  have l1: "es1 = fresh_calls en m (image_urls m imgs)"
    using edit_loop_fresh[of en m "image_urls m imgs"] l by simp
  obtain es2 st2 fl where b: "batch_results en m g imgs files failed st = (es2, st2, Some fl)"
    and b0: "edit_calls es2 = []"
    using batch_results_final by blast
  show ?thesis
  proof (cases r0)
    case None
    then have "batch_branch en m g imgs its st = (es0 @ es1 @ es2, st2, Some fl)"
      using True n l b by (simp add: batch_branch_def and_then_None)
    then show ?thesis using n0 l1 b0 by simp
  next
    case (Some f0)
    then have "batch_branch en m g imgs its st = (es0, st, Some f0)"
      using True n by (simp add: batch_branch_def)
    then show ?thesis using n0 by simp
  qed
qed

lemma fresh_calls_single:
  "fresh_calls en m [u] =
     [CallEdit (clean_message_content m) u (randint 100000 999999 (rand_raw en 0))]"
  by (simp add: fresh_calls_def)

lemma single_edit_final:
  "\<exists>es st' fl. single_edit en m g u st = (es, st', Some fl)
      \<and> edit_calls es = fresh_calls en m [u]"
proof (cases "generate_img2img_with_retry en 0 (clean_message_content m) u
                (randint 100000 999999 (rand_raw en 0))")
  case (Fails msg)
  then show ?thesis
    by (simp add: single_edit_def fresh_calls_single edit_calls_def)
next
  case (Ok r)
  obtain img fu err where r: "r = (img, fu, err)" by (cases r)
  show ?thesis
  proof (cases img)
    case True
    from send_result_shape[of en SingleEdit "[''edited_image.png'']" "ping_enabled st g"
        "Img2ImgMeta (clean_message_content m) (randint 100000 999999 (rand_raw en 0)) u" st]
    show ?thesis
      using Ok r True
      by (auto simp: single_edit_def and_then_None return_now_def fresh_calls_single
            edit_calls_def)
  next
    case False
    from send_return_final[of en
        "SendEmbed (CapabilityFailed SingleEdit (error_or_unknown err)) (Some 30) None" st]
    obtain es fl where
      "and_then (send en (SendEmbed (CapabilityFailed SingleEdit (error_or_unknown err))
          (Some 30) None) st) return_now = (es, st, Some fl)" by blast
    moreover have "edit_calls es = []"
      using calculation by (auto simp: send_def return_now_def and_then_None edit_calls_def
          split: send_outcome.splits)
    ultimately show ?thesis
      using Ok r False
      by (simp add: single_edit_def and_then_None fresh_calls_single edit_calls_def)
  qed
qed

lemma single_branch_shape:
  "single_branch en m g imgs its st = ([], st, None)
   \<or> (\<exists>es st' fl. single_branch en m g imgs its st = (es, st', Some fl)
        \<and> (edit_calls es = []
            \<or> (\<exists>u. image_url m imgs = Some u \<and> edit_calls es = fresh_calls en m [u])))"
proof (cases "wants_editing its \<and> has_any_images imgs \<and> total_image_count imgs = 1
              \<and> truthy_url (image_url m imgs)")
  case False
  then show ?thesis
    by (auto simp: single_branch_def truthy_url_def split: option.splits)
next
  case True
  then obtain u where u: "image_url m imgs = Some u" "u \<noteq> []"
    by (auto simp: truthy_url_def split: option.splits)
  obtain es0 r0 where n: "nsfw_check en SingleEdit (clean_message_content m) st = (es0, st, r0)"
    and n0: "edit_calls es0 = []"
    using nsfw_check_shape by blast
  obtain es1 st1 fl where s: "single_edit en m g u st = (es1, st1, Some fl)"
    and s1: "edit_calls es1 = fresh_calls en m [u]"
    using single_edit_final by blast
  show ?thesis
  proof (cases r0)
    case None
    then have "single_branch en m g imgs its st = (es0 @ es1, st1, Some fl)"
      using True u n s by (simp add: single_branch_def and_then_None)
    then show ?thesis using n0 s1 u by simp
  next
    case (Some f0)
    then have "single_branch en m g imgs its st = (es0, st, Some f0)"
      using True u n by (simp add: single_branch_def)
    then show ?thesis using n0 by simp
  qed
qed

lemma fresh_single_branch:
  "fresh en m imgs (fst (single_branch en m g imgs its st))
   \<and> (fst (single_branch en m g imgs its st) = []
       \<or> snd (snd (single_branch en m g imgs its st)) \<noteq> None)"
proof -
  consider (skip) "single_branch en m g imgs its st = ([], st, None)"
    | (quiet) es st' fl where "single_branch en m g imgs its st = (es, st', Some fl)"
        "edit_calls es = []"
    | (call) es st' fl u where "single_branch en m g imgs its st = (es, st', Some fl)"
        "image_url m imgs = Some u" "edit_calls es = fresh_calls en m [u]"
    using single_branch_shape[of en m g imgs its st] by blast
  then show ?thesis
  proof cases
    case skip
    then show ?thesis by (simp add: fresh_empty)
  next
    case quiet
    then show ?thesis by (simp add: fresh_empty)
  next
    case call
    have "fresh en m imgs es"
      unfolding fresh_def using call(2,3) by (intro exI[of _ "[u]"]) simp
    with call(1) show ?thesis by simp
  qed
qed

lemma fresh_batch_branch:
  "fresh en m imgs (fst (batch_branch en m g imgs its st))
   \<and> (fst (batch_branch en m g imgs its st) = []
       \<or> snd (snd (batch_branch en m g imgs its st)) \<noteq> None)"
proof -
  consider (skip) "batch_branch en m g imgs its st = ([], st, None)"
    | (quiet) es st' fl where "batch_branch en m g imgs its st = (es, st', Some fl)"
        "edit_calls es = []"
    | (call) es st' fl where "batch_branch en m g imgs its st = (es, st', Some fl)"
        "edit_calls es = fresh_calls en m (image_urls m imgs)"
    using batch_branch_shape[of en m g imgs its st] by blast
  then show ?thesis
  proof cases
    case skip
    then show ?thesis by (simp add: fresh_empty)
  next
    case quiet
    then show ?thesis by (simp add: fresh_empty)
  next
    case call
    have "fresh en m imgs es"
      unfolding fresh_def using call(2) by (intro exI[of _ "image_urls m imgs"]) simp
    with call(1) show ?thesis by simp
  qed
qed

lemma fresh_dispatch: "fresh en m imgs (fst (dispatch en m g imgs st))"
  unfolding dispatch_def
proof (rule fresh_and_then_no_edit)
  show "emits no_edit_call (classify_events m imgs, st, None)"
    by (simp add: emits_def classify_events_def)
next
  fix st1
  show "fresh en m imgs
          (fst (and_then (merge_branch en m g imgs (classify en m imgs) st1) (\<lambda>st.
                and_then (batch_branch en m g imgs (classify en m imgs) st) (\<lambda>st.
                and_then (single_branch en m g imgs (classify en m imgs) st) (\<lambda>st.
                and_then (corrective_branch en imgs (classify en m imgs) st) (\<lambda>st.
                and_then (generation_branch en m g (classify en m imgs) st) (\<lambda>st.
                and_then (web_search_branch en m g (classify en m imgs) st) (\<lambda>st.
                and_then (analysis_branch en m g imgs (classify en m imgs) st)
                  process_commands))))))))"
  proof (rule fresh_and_then_no_edit[OF ne_merge_branch])
    fix st2
    show "fresh en m imgs
          (fst (and_then (batch_branch en m g imgs (classify en m imgs) st2) (\<lambda>st.
                and_then (single_branch en m g imgs (classify en m imgs) st) (\<lambda>st.
                and_then (corrective_branch en imgs (classify en m imgs) st) (\<lambda>st.
                and_then (generation_branch en m g (classify en m imgs) st) (\<lambda>st.
                and_then (web_search_branch en m g (classify en m imgs) st) (\<lambda>st.
                and_then (analysis_branch en m g imgs (classify en m imgs) st)
                  process_commands)))))))"
    proof (rule fresh_and_then_final)
      show "fresh en m imgs (fst (batch_branch en m g imgs (classify en m imgs) st2))"
        using fresh_batch_branch by blast
      show "fst (batch_branch en m g imgs (classify en m imgs) st2) = []
          \<or> snd (snd (batch_branch en m g imgs (classify en m imgs) st2)) \<noteq> None"
        using fresh_batch_branch by blast
    next
      fix st3
      show "fresh en m imgs
          (fst (and_then (single_branch en m g imgs (classify en m imgs) st3) (\<lambda>st.
                and_then (corrective_branch en imgs (classify en m imgs) st) (\<lambda>st.
                and_then (generation_branch en m g (classify en m imgs) st) (\<lambda>st.
                and_then (web_search_branch en m g (classify en m imgs) st) (\<lambda>st.
                and_then (analysis_branch en m g imgs (classify en m imgs) st)
                  process_commands))))))"
      proof (rule fresh_and_then_final)
        show "fresh en m imgs (fst (single_branch en m g imgs (classify en m imgs) st3))"
          using fresh_single_branch by blast
        show "fst (single_branch en m g imgs (classify en m imgs) st3) = []
            \<or> snd (snd (single_branch en m g imgs (classify en m imgs) st3)) \<noteq> None"
          using fresh_single_branch by blast
      next
        fix st4
        show "fresh en m imgs
          (fst (and_then (corrective_branch en imgs (classify en m imgs) st4) (\<lambda>st.
                and_then (generation_branch en m g (classify en m imgs) st) (\<lambda>st.
                and_then (web_search_branch en m g (classify en m imgs) st) (\<lambda>st.
                and_then (analysis_branch en m g imgs (classify en m imgs) st)
                  process_commands)))))"
          by (rule fresh_empty[OF emits_no_edit[OF ne_after_single]])
      qed
    qed
  qed
qed

lemma fst_finish: "fst (finish a) = fst a"
  by (auto simp: finish_def split: prod.splits option.splits)

lemma fresh_on_message:
  "fresh en m (collect_images en m) (fst (on_message cfg en st m))"
proof (cases "author_bot m \<or> msg_guild m = None \<or> author_id m \<in> blocked_users st")
  case True
  then have "on_message cfg en st m = ([], st, Returned)"
    by (cases "msg_guild m") (auto simp: on_message_def)
  then show ?thesis by (simp add: fresh_empty)
next
  case False
  then obtain g where g: "msg_guild m = Some g" by auto
  have a: "\<And>st1. fresh en m (collect_images en m) (fst (after_mention cfg en m g st1))"
    by (auto simp: after_mention_def process_commands_def return_now_def fresh_empty
          edit_calls_def fresh_dispatch)
  have "fresh en m (collect_images en m)
          (fst (and_then (mention_command cfg en m g st) (after_mention cfg en m g)))"
    by (rule fresh_and_then_no_edit[OF ne_mention_command a])
  then show ?thesis
    using False g by (simp add: on_message_def fst_finish)
qed

lemma reaches_dispatcher_run:
  "reaches_dispatcher cfg en st m g \<Longrightarrow>
   on_message cfg en st m = finish (dispatch en m g (collect_images en m) st)"
  unfolding reaches_dispatcher_def by (intro on_message_reaches_dispatch) simp_all

lemma total_is_length:
  "total_image_count (collect_images en m) = length (image_urls m (collect_images en m))"
  by (auto simp: collect_images_def image_urls_def count_images_in_message_def Let_def
        has_images_count split: option.splits)

lemma image_url_has_any: "image_url m imgs = Some u \<Longrightarrow> has_any_images imgs"
  by (auto simp: image_url_def has_any_images_def split: if_splits)

lemma batch_path:
  assumes r: "reaches_dispatcher cfg en st m g"
    and we: "wants_editing (classify en m (collect_images en m))"
    and n: "2 \<le> total_image_count (collect_images en m)"
    and wm: "\<not> wants_merge (classify en m (collect_images en m))"
    and safe: "classify_prompt en (clean_message_content m) \<noteq> Ok ''NSFW''"
  shows "edit_calls (fst (on_message cfg en st m)) =
           fresh_calls en m (image_urls m (collect_images en m))"
proof -
  let ?imgs = "collect_images en m"
  let ?its = "classify en m ?imgs"
  have len: "2 \<le> length (image_urls m ?imgs)" using n total_is_length[of en m] by simp
  have mb: "merge_branch en m g ?imgs ?its st = ([], st, None)"
    using wm by (simp add: merge_branch_def)
  obtain es1 files failed where
    l: "edit_loop en (clean_message_content m) 0 (image_urls m ?imgs) = (es1, files, failed)"
    by (cases "edit_loop en (clean_message_content m) 0 (image_urls m ?imgs)")
  have l1: "es1 = fresh_calls en m (image_urls m ?imgs)"
    using edit_loop_fresh[of en m "image_urls m ?imgs"] l by simp
  obtain es2 st2 fl where b: "batch_results en m g ?imgs files failed st = (es2, st2, Some fl)"
    and b0: "edit_calls es2 = []"
    using batch_results_final by blast
  have bb: "batch_branch en m g ?imgs ?its st =
              (CallClassify (clean_message_content m) # es1 @ es2, st2, Some fl)"
    using we n wm len l b nsfw_check_safe[OF safe, of BatchEdit st]
    by (simp add: batch_branch_def and_then_None)
  have ce: "edit_calls (classify_events m ?imgs) = []"
    "edit_calls [CallClassify (clean_message_content m)] = []"
    by (simp_all add: classify_events_def edit_calls_def)
  have "fst (dispatch en m g ?imgs st) =
          classify_events m ?imgs @ [CallClassify (clean_message_content m)] @ es1 @ es2"
    by (simp add: dispatch_def and_then_None mb bb)
  then have "edit_calls (fst (dispatch en m g ?imgs st)) = fresh_calls en m (image_urls m ?imgs)"
    using l1 b0 ce by simp
  then show ?thesis
    using reaches_dispatcher_run[OF r] by (simp add: fst_finish)
qed

lemma single_path:
  assumes r: "reaches_dispatcher cfg en st m g"
    and we: "wants_editing (classify en m (collect_images en m))"
    and n: "total_image_count (collect_images en m) = 1"
    and u: "image_url m (collect_images en m) = Some u" "u \<noteq> []"
    and safe: "classify_prompt en (clean_message_content m) \<noteq> Ok ''NSFW''"
  shows "edit_calls (fst (on_message cfg en st m)) =
           [CallEdit (clean_message_content m) u (randint 100000 999999 (rand_raw en 0))]"
    and "generate_img2img_with_retry en 0 (clean_message_content m) u
           (randint 100000 999999 (rand_raw en 0)) = Ok (True, fu, err) \<Longrightarrow>
         channel_send en (SendFiles SingleEdit [''edited_image.png''] (ping_enabled st g)) = Sent i
         \<Longrightarrow> image_metadata (fst (snd (on_message cfg en st m))) (str_int i) =
           Some (Img2ImgMeta (clean_message_content m)
                   (randint 100000 999999 (rand_raw en 0)) u)"
proof -
  let ?imgs = "collect_images en m"
  let ?its = "classify en m ?imgs"
  have mb: "merge_branch en m g ?imgs ?its st = ([], st, None)"
    using n by (simp add: merge_branch_def)
  have bb: "batch_branch en m g ?imgs ?its st = ([], st, None)"
    using n by (simp add: batch_branch_def)
  have sb: "single_branch en m g ?imgs ?its st =
              and_then ([CallClassify (clean_message_content m)], st, None) (single_edit en m g u)"
    using we n u image_url_has_any[OF u(1)] nsfw_check_safe[OF safe, of SingleEdit st]
    by (simp add: single_branch_def)
  obtain es1 st1 fl where s: "single_edit en m g u st = (es1, st1, Some fl)"
    and s1: "edit_calls es1 = fresh_calls en m [u]"
    using single_edit_final by blast
  have ce: "edit_calls (classify_events m ?imgs) = []"
    "edit_calls [CallClassify (clean_message_content m)] = []"
    by (simp_all add: classify_events_def edit_calls_def)
  have d: "dispatch en m g ?imgs st =
          (classify_events m ?imgs @ [CallClassify (clean_message_content m)] @ es1, st1, Some fl)"
    by (simp add: dispatch_def and_then_None mb bb sb s)
  have o: "on_message cfg en st m = finish (dispatch en m g ?imgs st)"
    by (rule reaches_dispatcher_run[OF r])
  show "edit_calls (fst (on_message cfg en st m)) =
           [CallEdit (clean_message_content m) u (randint 100000 999999 (rand_raw en 0))]"
    using o d s1 ce by (simp add: fst_finish fresh_calls_single)
  assume ok: "generate_img2img_with_retry en 0 (clean_message_content m) u
           (randint 100000 999999 (rand_raw en 0)) = Ok (True, fu, err)"
    and sent: "channel_send en (SendFiles SingleEdit [''edited_image.png''] (ping_enabled st g)) = Sent i"
  have "st1 = st\<lparr>image_metadata := (image_metadata st)(str_int i \<mapsto>
             Img2ImgMeta (clean_message_content m) (randint 100000 999999 (rand_raw en 0)) u)\<rparr>"
    using s ok sent
    by (simp add: single_edit_def send_result_def and_then_None return_now_def)
  then show "image_metadata (fst (snd (on_message cfg en st m))) (str_int i) =
           Some (Img2ImgMeta (clean_message_content m)
                   (randint 100000 999999 (rand_raw en 0)) u)"
    using o d by (simp add: finish_def)
qed

text \<open>
  C10. Every edit call of a run has a seed between 100000 and 999999, both included,
  and the edit calls of a run are those of \<open>fresh_calls\<close>: one for the single image or
  one for each collected image, the j-th with \<open>random.randint(100000, 999999)\<close> of the
  j-th draw. A message that reaches the dispatcher, wants editing and not merging,
  has two images or more and a prompt not judged NSFW gets exactly these calls for all
  its images. A message that reaches the dispatcher, wants editing, has one image and
  a prompt not judged NSFW gets exactly one call, with the first draw as seed; when
  the edit returns an image and the send is accepted as message \<open>i\<close>, the metadata
  entry under \<open>str(i)\<close> is the img2img entry with that prompt, that image and that same
  seed. And every img2img entry a run adds to the store carries prompt, image and seed
  of an edit call of that run.
\<close>

theorem edit_seed_in_range_and_stored:
  "list_all seed_in_range (fst (on_message cfg en st m))
   \<and> fresh en m (collect_images en m) (fst (on_message cfg en st m))
   \<and> (reaches_dispatcher cfg en st m g \<longrightarrow>
        wants_editing (classify en m (collect_images en m)) \<longrightarrow>
        2 \<le> total_image_count (collect_images en m) \<longrightarrow>
        \<not> wants_merge (classify en m (collect_images en m)) \<longrightarrow>
        classify_prompt en (clean_message_content m) \<noteq> Ok ''NSFW'' \<longrightarrow>
        edit_calls (fst (on_message cfg en st m)) =
          fresh_calls en m (image_urls m (collect_images en m))
        \<and> length (image_urls m (collect_images en m)) = total_image_count (collect_images en m))
   \<and> (reaches_dispatcher cfg en st m g \<longrightarrow>
        wants_editing (classify en m (collect_images en m)) \<longrightarrow>
        total_image_count (collect_images en m) = 1 \<longrightarrow>
        image_url m (collect_images en m) = Some u \<longrightarrow> u \<noteq> [] \<longrightarrow>
        classify_prompt en (clean_message_content m) \<noteq> Ok ''NSFW'' \<longrightarrow>
        edit_calls (fst (on_message cfg en st m)) =
          [CallEdit (clean_message_content m) u (randint 100000 999999 (rand_raw en 0))]
        \<and> (generate_img2img_with_retry en 0 (clean_message_content m) u
              (randint 100000 999999 (rand_raw en 0)) = Ok (True, fu, err) \<longrightarrow>
            channel_send en (SendFiles SingleEdit [''edited_image.png''] (ping_enabled st g))
              = Sent i \<longrightarrow>
            image_metadata (fst (snd (on_message cfg en st m))) (str_int i) =
              Some (Img2ImgMeta (clean_message_content m)
                      (randint 100000 999999 (rand_raw en 0)) u)))
   \<and> (image_metadata (fst (snd (on_message cfg en st m))) k = Some (Img2ImgMeta p s v) \<longrightarrow>
        image_metadata st k = Some (Img2ImgMeta p s v)
        \<or> (CallEdit p v s \<in> set (fst (on_message cfg en st m))
            \<and> 100000 \<le> s \<and> s \<le> 999999))"
proof -
  have r: "list_all seed_in_range (fst (on_message cfg en st m))"
    using wf_on_message[of cfg en st m] by (auto simp: list_all_iff well_formed_def)
  have c: "CallEdit p v s \<in> set (fst (on_message cfg en st m)) \<Longrightarrow> 100000 \<le> s \<and> s \<le> 999999"
    using r by (auto simp: list_all_iff seed_in_range_def)
  have k: "image_metadata (fst (snd (on_message cfg en st m))) k = Some (Img2ImgMeta p s v) \<longrightarrow>
        image_metadata st k = Some (Img2ImgMeta p s v)
        \<or> (CallEdit p v s \<in> set (fst (on_message cfg en st m))
            \<and> 100000 \<le> s \<and> s \<le> 999999)"
    using c sk_on_message[of cfg en st m k p s v] by blast
  have t: "length (image_urls m (collect_images en m)) = total_image_count (collect_images en m)"
    using total_is_length[of en m] by simp
  show ?thesis
  proof (intro conjI impI)
    show "list_all seed_in_range (fst (on_message cfg en st m))" by (rule r)
    show "fresh en m (collect_images en m) (fst (on_message cfg en st m))"
      by (rule fresh_on_message)
    show "length (image_urls m (collect_images en m)) = total_image_count (collect_images en m)"
      by (rule t)
  next
    assume "reaches_dispatcher cfg en st m g"
      "wants_editing (classify en m (collect_images en m))"
      "2 \<le> total_image_count (collect_images en m)"
      "\<not> wants_merge (classify en m (collect_images en m))"
      "classify_prompt en (clean_message_content m) \<noteq> Ok ''NSFW''"
    then show "edit_calls (fst (on_message cfg en st m)) =
          fresh_calls en m (image_urls m (collect_images en m))"
      by (rule batch_path)
  next
    assume "reaches_dispatcher cfg en st m g"
      "wants_editing (classify en m (collect_images en m))"
      "total_image_count (collect_images en m) = 1"
      "image_url m (collect_images en m) = Some u" "u \<noteq> []"
      "classify_prompt en (clean_message_content m) \<noteq> Ok ''NSFW''"
    then show "edit_calls (fst (on_message cfg en st m)) =
          [CallEdit (clean_message_content m) u (randint 100000 999999 (rand_raw en 0))]"
      by (rule single_path(1))
  next
    assume "reaches_dispatcher cfg en st m g"
      "wants_editing (classify en m (collect_images en m))"
      "total_image_count (collect_images en m) = 1"
      "image_url m (collect_images en m) = Some u" "u \<noteq> []"
      "classify_prompt en (clean_message_content m) \<noteq> Ok ''NSFW''"
      "generate_img2img_with_retry en 0 (clean_message_content m) u
              (randint 100000 999999 (rand_raw en 0)) = Ok (True, fu, err)"
      "channel_send en (SendFiles SingleEdit [''edited_image.png''] (ping_enabled st g))
              = Sent i"
    then show "image_metadata (fst (snd (on_message cfg en st m))) (str_int i) =
              Some (Img2ImgMeta (clean_message_content m)
                      (randint 100000 999999 (rand_raw en 0)) u)"
      by (rule single_path(2))
  next
    assume "image_metadata (fst (snd (on_message cfg en st m))) k = Some (Img2ImgMeta p s v)"
    then show "image_metadata st k = Some (Img2ImgMeta p s v)
        \<or> (CallEdit p v s \<in> set (fst (on_message cfg en st m))
            \<and> 100000 \<le> s \<and> s \<le> 999999)"
      using k by blast
  qed
qed

theorem edit_seed_in_range_and_stored_witness:
  "reaches_dispatcher cfg0 env_edit st_idle msg_edit_photo guild7
   \<and> wants_editing (classify env_edit msg_edit_photo (collect_images env_edit msg_edit_photo))
   \<and> total_image_count (collect_images env_edit msg_edit_photo) = 1
   \<and> image_url msg_edit_photo (collect_images env_edit msg_edit_photo)
       = Some ''https://cdn/photo.png''
   \<and> classify_prompt env_edit (clean_message_content msg_edit_photo) \<noteq> Ok ''NSFW''
   \<and> rand_raw env_edit 0 = 123456789
   \<and> edit_calls (fst (on_message cfg0 env_edit st_idle msg_edit_photo)) =
       [CallEdit ''Gacha draw a cat'' ''https://cdn/photo.png'' 256789]
   \<and> channel_send env_edit (SendFiles SingleEdit [''edited_image.png''] True) = Sent 900
   \<and> image_metadata (fst (snd (on_message cfg0 env_edit st_idle msg_edit_photo))) ''900'' =
       Some (Img2ImgMeta ''Gacha draw a cat'' 256789 ''https://cdn/photo.png'')
   \<and> list_all seed_in_range (fst (on_message cfg0 env_edit st_idle msg_edit_photo))
   \<and> reaches_dispatcher cfg0 env_edit_partial st_paused msg_two guild7
   \<and> wants_editing (classify env_edit_partial msg_two (collect_images env_edit_partial msg_two))
   \<and> total_image_count (collect_images env_edit_partial msg_two) = 2
   \<and> \<not> wants_merge (classify env_edit_partial msg_two (collect_images env_edit_partial msg_two))
   \<and> rand_raw env_edit_partial 1 = 123456790
   \<and> edit_calls (fst (on_message cfg0 env_edit_partial st_paused msg_two)) =
       [CallEdit ''draw a cat'' ''https://cdn/photo.png'' 256789,
        CallEdit ''draw a cat'' ''https://cdn/second.jpeg'' 256790]"
proof -
  have h1: "reaches_dispatcher cfg0 env_edit st_idle msg_edit_photo guild7"
    "wants_editing (classify env_edit msg_edit_photo (collect_images env_edit msg_edit_photo))"
    "total_image_count (collect_images env_edit msg_edit_photo) = 1"
    "image_url msg_edit_photo (collect_images env_edit msg_edit_photo)
       = Some ''https://cdn/photo.png''"
    "classify_prompt env_edit (clean_message_content msg_edit_photo) \<noteq> Ok ''NSFW''"
    by (simp_all add: reaches_dispatcher_def is_mention_command_def is_command_text_def
          current_prefix_def should_respond_def channel_active_def is_channel_active_def
          whitelist_active_def classify_def collect_images_def has_images_in_message_def
          count_images_in_message_def is_image_def image_exts_def image_url_def first_url_def
          clean_message_content_def ev_ex ev_strings ev_str)
  have v1: "clean_message_content msg_edit_photo = ''Gacha draw a cat''"
    "randint 100000 999999 (rand_raw env_edit 0) = 256789"
    "rand_raw env_edit 0 = 123456789"
    "str_int 900 = ''900''" "ping_enabled st_idle guild7 = True"
    "generate_img2img_with_retry env_edit 0 ''Gacha draw a cat'' ''https://cdn/photo.png'' 256789
       = Ok (True, ''https://cdn/edited'', None)"
    "channel_send env_edit (SendFiles SingleEdit [''edited_image.png''] True) = Sent 900"
    by (simp_all add: clean_message_content_def randint_def ping_enabled_def ev_ex ev_strings
          ev_str)
  have h2: "reaches_dispatcher cfg0 env_edit_partial st_paused msg_two guild7"
    "wants_editing (classify env_edit_partial msg_two (collect_images env_edit_partial msg_two))"
    "total_image_count (collect_images env_edit_partial msg_two) = 2"
    "\<not> wants_merge (classify env_edit_partial msg_two (collect_images env_edit_partial msg_two))"
    "classify_prompt env_edit_partial (clean_message_content msg_two) \<noteq> Ok ''NSFW''"
    by (simp_all add: reaches_dispatcher_def is_mention_command_def is_command_text_def
          current_prefix_def should_respond_def channel_active_def is_channel_active_def
          whitelist_active_def classify_def collect_images_def has_images_in_message_def
          count_images_in_message_def is_image_def image_exts_def
          clean_message_content_def ev_ex ev_strings ev_str)
  have v2: "rand_raw env_edit_partial 1 = 123456790"
    "fresh_calls env_edit_partial msg_two
        (image_urls msg_two (collect_images env_edit_partial msg_two)) =
       [CallEdit ''draw a cat'' ''https://cdn/photo.png'' 256789,
        CallEdit ''draw a cat'' ''https://cdn/second.jpeg'' 256790]"
    by (simp_all add: fresh_calls_def image_urls_def collect_images_def is_image_def
          image_exts_def has_images_in_message_def count_images_in_message_def
          clean_message_content_def randint_def ev_ex ev_strings upt_rec)
  show ?thesis
    using h1 h2 v1 v2
      edit_seed_in_range_and_stored[of cfg0 env_edit st_idle msg_edit_photo guild7
        "''https://cdn/photo.png''" "''https://cdn/edited''" None 900]
      edit_seed_in_range_and_stored[of cfg0 env_edit_partial st_paused msg_two guild7]
    by simp
qed

end
